theory Spec2Isabelle
  imports Complex_Main "HOL-Library.AList" "HOL-Library.Code_Target_Numeral"
begin

section \<open>The order store of \<^verbatim>\<open>CartManager\<close> (assets/js/app-optimized.js)\<close>

text \<open>
  The class \<^verbatim>\<open>CartManager\<close> keeps three fields: \<^verbatim>\<open>activeOrderId\<close>, the object
  \<^verbatim>\<open>orders\<close> (order id to array of items) and the array \<^verbatim>\<open>orderTemplates\<close>.
  Items are JavaScript objects: \<^verbatim>\<open>[...this.cart]\<close> copies an array of references, and
  \<^verbatim>\<open>existingItem.quantity += ...\<close> writes through a reference. The model therefore has
  an explicit store of item objects (\<open>heap\<close>, an address is an index into it; objects
  are never freed) and arrays of addresses.

  \<^verbatim>\<open>orders\<close> is a plain object: \<^verbatim>\<open>this.orders[id]\<close> also finds what the object inherits
  from \<^verbatim>\<open>Object.prototype\<close> (\<^verbatim>\<open>constructor\<close>, \<^verbatim>\<open>toString\<close>, \<^verbatim>\<open>__proto__\<close>, ...), which
  is truthy and no array. The model keeps the own properties of \<^verbatim>\<open>orders\<close> as an
  association list and looks the inherited members up in a table; a method that the
  code calls on such a member (\<^verbatim>\<open>find\<close>, \<^verbatim>\<open>reduce\<close>, a spread) throws \<^verbatim>\<open>TypeError\<close>,
  which is an outcome of the model.

  Conventions of the model:
  \<^item> JavaScript numbers are reals, with \<open>NaN\<close> apart; IEEE rounding, infinities and
    the sign of zero are outside the model.
  \<^item> Strings are ASCII strings.
  \<^item> \<^verbatim>\<open>Date.now()\<close>, \<^verbatim>\<open>Math.random()\<close> and \<^verbatim>\<open>new Date().toISOString()\<close> are read
    from an environment record passed to the operation that uses them.
  \<^item> \<^verbatim>\<open>saveOrders\<close>, \<^verbatim>\<open>saveActiveOrderId\<close> and \<^verbatim>\<open>saveOrderTemplates\<close> write to
    \<^verbatim>\<open>localStorage\<close> and change no field of the manager (no listener is registered by
    the program); they are the identity on the modelled state. \<^verbatim>\<open>updateCartDisplay\<close>
    changes no field either, but it reads the cart and can throw; which of the
    elements it fills are in the page is part of the state. \<^verbatim>\<open>showNotification\<close> is
    kept as a log of (message, type).
  \<^item> An assignment to \<^verbatim>\<open>this.orders["__proto__"]\<close> replaces the prototype of
    \<^verbatim>\<open>orders\<close>; what the program does from then on is not modelled, and the call that
    does it has the outcome \<open>PrototypeReplaced\<close>.
\<close>

subsection \<open>Data\<close>

datatype jsnum = NaN | Num real

type_synonym addr = nat

record item =
  i_id :: string
  i_name :: string
  i_price :: real
  i_quantity :: int

text \<open>The argument of \<^verbatim>\<open>addItem\<close>; \<open>None\<close> is a property that is \<^verbatim>\<open>undefined\<close>.\<close>

record descriptor =
  d_name :: "string option"
  d_price :: "jsnum option"
  d_quantity :: "jsnum option"
  d_id :: "string option"

record template =
  t_id :: string
  t_name :: string
  t_items :: "addr list"
  t_createdAt :: string
  t_total :: real
  t_itemCount :: int
  t_updatedAt :: "string option"

record env =
  e_now :: string
  e_rnd :: string
  e_iso :: string

text \<open>
  A member of \<^verbatim>\<open>Object.prototype\<close>: a function, with its \<^verbatim>\<open>length\<close>, or the prototype
  object itself, which the getter \<^verbatim>\<open>__proto__\<close> returns.
\<close>

datatype member = Function nat | ProtoObject

text \<open>What \<^verbatim>\<open>this.orders[id]\<close> can hold: an array of items or such a member.\<close>

datatype slot = Rows "addr list" | Member member

text \<open>
  The elements of the page that \<^verbatim>\<open>updateCartDisplay\<close> looks for: \<^verbatim>\<open>.cart-count\<close>,
  \<^verbatim>\<open>.cart-items\<close> and \<^verbatim>\<open>#total-amount\<close>.
\<close>

record page =
  has_cart_count :: bool
  has_cart_items :: bool
  has_total_amount :: bool

record cart_manager =
  activeOrderId :: string
  orders :: "(string \<times> slot) list"
  orderTemplates :: "template list"
  heap :: "item list"
  notifications :: "(string \<times> string) list"
  page :: page

text \<open>
  How a call ends: it returns a value, it throws \<^verbatim>\<open>TypeError\<close>, or it replaces the
  prototype of \<^verbatim>\<open>orders\<close>. An operation yields the outcome and the state it leaves
  (after \<open>PrototypeReplaced\<close> the state given is the one before the call and stands
  for nothing).
\<close>

datatype 'a outcome = Return 'a | TypeError | PrototypeReplaced

subsection \<open>Utility functions and built-ins\<close>

definition is_ws :: "char \<Rightarrow> bool" where
  "is_ws c = (c = CHR '' '' \<or> c = CHR 0x09 \<or> c = CHR 0x0A \<or> c = CHR 0x0B
              \<or> c = CHR 0x0C \<or> c = CHR 0x0D)"

text \<open>\<^verbatim>\<open>String.prototype.trim\<close>.\<close>

definition trim :: "string \<Rightarrow> string" where
  "trim s = rev (dropWhile is_ws (rev (dropWhile is_ws s)))"

text \<open>
  \<^verbatim>\<open>sanitizeInput\<close>: the text is assigned to \<^verbatim>\<open>textContent\<close> and read back as
  \<^verbatim>\<open>innerHTML\<close>; the serialisation of a text node escapes \<^verbatim>\<open>&\<close>, \<^verbatim>\<open><\<close> and \<^verbatim>\<open>>\<close>.
\<close>

fun sanitizeInput :: "string \<Rightarrow> string" where
  "sanitizeInput [] = []"
| "sanitizeInput (c # cs) =
     (if c = CHR ''&'' then ''&amp;'' @ sanitizeInput cs
      else if c = CHR ''<'' then ''&lt;'' @ sanitizeInput cs
      else if c = CHR ''>'' then ''&gt;'' @ sanitizeInput cs
      else c # sanitizeInput cs)"

text \<open>
  \<^verbatim>\<open>parseInt\<close> of a number or of \<^verbatim>\<open>undefined\<close>: \<open>None\<close> is \<^verbatim>\<open>NaN\<close>. A number is first
  rendered: in decimal notation from \<^verbatim>\<open>1e-6\<close> up to \<^verbatim>\<open>1e21\<close>, where \<^verbatim>\<open>parseInt\<close> reads
  the integer part, and with an exponent outside, where it reads the leading digit
  only. \<^verbatim>\<open>parseFloat\<close> of a number is the number.
\<close>

function lead_big :: "real \<Rightarrow> int" where
  "lead_big r = (if r < 10 then \<lfloor>r\<rfloor> else lead_big (r / 10))"
  by pat_completeness auto
termination
proof (relation "measure (\<lambda>r. nat \<lfloor>r\<rfloor>)")
  show "wf (measure (\<lambda>r::real. nat \<lfloor>r\<rfloor>))" by simp
next
  fix r :: real
  assume "\<not> r < 10"
  then have "r / 10 \<le> r - 9" by simp
  then have "\<lfloor>r / 10\<rfloor> \<le> \<lfloor>r - 9\<rfloor>" by (rule floor_mono)
  moreover have "\<lfloor>r - 9\<rfloor> = \<lfloor>r\<rfloor> - 9" by simp
  moreover have "10 \<le> \<lfloor>r\<rfloor>" using \<open>\<not> r < 10\<close> by (simp add: le_floor_iff)
  ultimately show "(r / 10, r) \<in> measure (\<lambda>r. nat \<lfloor>r\<rfloor>)" by simp
qed

function lead_small :: "real \<Rightarrow> int" where
  "lead_small r = (if r \<le> 0 \<or> 1 \<le> r then \<lfloor>r\<rfloor> else lead_small (r * 10))"
  by pat_completeness auto
termination
proof (relation "measure (\<lambda>r. nat \<lceil>1 / r\<rceil>)")
  show "wf (measure (\<lambda>r::real. nat \<lceil>1 / r\<rceil>))" by simp
next
  fix r :: real
  assume "\<not> (r \<le> 0 \<or> 1 \<le> r)"
  then have r: "0 < r" "r < 1" by simp_all
  define x where "x = 1 / r"
  have x: "1 < x" using r by (simp add: x_def)
  have eq: "1 / (r * 10) = x / 10" by (simp add: x_def)
  have "\<lceil>x / 10\<rceil> < \<lceil>x\<rceil>"
  proof (cases "x \<le> 10")
    case True
    then have a: "\<lceil>x / 10\<rceil> \<le> 1" by (simp add: ceiling_le_iff)
    have b: "1 < \<lceil>x\<rceil>" using x by (simp add: less_ceiling_iff)
    from a b show ?thesis by (rule le_less_trans)
  next
    case False
    then have "x / 10 \<le> x - 9" by simp
    then have "\<lceil>x / 10\<rceil> \<le> \<lceil>x - 9\<rceil>" by (rule ceiling_mono)
    moreover have "\<lceil>x - 9\<rceil> = \<lceil>x\<rceil> - 9" by simp
    ultimately show ?thesis by simp
  qed
  moreover have "0 < \<lceil>x\<rceil>" using x by (simp add: less_ceiling_iff)
  ultimately have "nat \<lceil>x / 10\<rceil> < nat \<lceil>x\<rceil>" by simp
  then have "nat \<lceil>1 / (r * 10)\<rceil> < nat \<lceil>1 / r\<rceil>"
    by (simp only: eq) (simp only: x_def)
  then show "(r * 10, r) \<in> measure (\<lambda>r. nat \<lceil>1 / r\<rceil>)"
    by (simp only: in_measure)
qed

declare lead_big.simps [simp del] lead_small.simps [simp del]

definition parseInt :: "jsnum option \<Rightarrow> int option" where
  "parseInt v =
     (case v of
        None \<Rightarrow> None
      | Some NaN \<Rightarrow> None
      | Some (Num r) \<Rightarrow>
          Some (let a = \<bar>r\<bar>;
                    m = (if 10 ^ 21 \<le> a then lead_big a
                         else if 0 < a \<and> a < 1 / 10 ^ 6 then lead_small a
                         else \<lfloor>a\<rfloor>)
                in if r < 0 then - m else m))"

text \<open>\<^verbatim>\<open>parseInt(item.quantity) || 1\<close>: \<^verbatim>\<open>NaN\<close> and \<^verbatim>\<open>0\<close> are falsy.\<close>

definition quantity_or_1 :: "jsnum option \<Rightarrow> int" where
  "quantity_or_1 v =
     (case parseInt v of None \<Rightarrow> 1 | Some n \<Rightarrow> (if n = 0 then 1 else n))"

definition toLowerCase :: "string \<Rightarrow> string" where
  "toLowerCase s =
     map (\<lambda>c. case map_of (zip ''ABCDEFGHIJKLMNOPQRSTUVWXYZ'' ''abcdefghijklmnopqrstuvwxyz'') c of
                 Some l \<Rightarrow> l
               | None \<Rightarrow> c) s"

text \<open>\<^verbatim>\<open>replace(/\s+/g, '-')\<close>; the flag says that a run of white space is being skipped.\<close>

fun replace_ws :: "bool \<Rightarrow> string \<Rightarrow> string" where
  "replace_ws inrun [] = []"
| "replace_ws inrun (c # cs) =
     (if is_ws c then (if inrun then replace_ws True cs else CHR ''-'' # replace_ws True cs)
      else c # replace_ws False cs)"

definition generateItemId :: "env \<Rightarrow> string \<Rightarrow> string" where
  "generateItemId e nm = ''item-'' @ replace_ws False (toLowerCase nm) @ ''-'' @ e_now e"

definition generateOrderId :: "env \<Rightarrow> string \<Rightarrow> string" where
  "generateOrderId e prefix = prefix @ ''-'' @ e_now e @ ''-'' @ e_rnd e"

definition showNotification :: "string \<Rightarrow> string \<Rightarrow> cart_manager \<Rightarrow> cart_manager" where
  "showNotification message type s = s\<lparr>notifications := notifications s @ [(message, type)]\<rparr>"

subsection \<open>The object orders\<close>

text \<open>
  The members that every plain object inherits from \<^verbatim>\<open>Object.prototype\<close> (ECMAScript,
  with the accessors of its annex B that browsers have), each function with its
  \<^verbatim>\<open>length\<close>.
\<close>

definition object_prototype :: "(string \<times> member) list" where
  "object_prototype =
     [(''constructor'', Function 1),
      (''hasOwnProperty'', Function 1),
      (''isPrototypeOf'', Function 1),
      (''propertyIsEnumerable'', Function 1),
      (''toLocaleString'', Function 0),
      (''toString'', Function 0),
      (''valueOf'', Function 0),
      (''__defineGetter__'', Function 2),
      (''__defineSetter__'', Function 2),
      (''__lookupGetter__'', Function 1),
      (''__lookupSetter__'', Function 1),
      (''__proto__'', ProtoObject)]"

text \<open>\<^verbatim>\<open>this.orders[k]\<close>: an own property, else an inherited member, else \<^verbatim>\<open>undefined\<close>.\<close>

definition orders_get :: "cart_manager \<Rightarrow> string \<Rightarrow> slot option" where
  "orders_get s k =
     (case map_of (orders s) k of
        Some v \<Rightarrow> Some v
      | None \<Rightarrow> map_option Member (map_of object_prototype k))"

text \<open>
  \<^verbatim>\<open>this.orders[k] = v\<close>: writes the own property, creating it when there is none,
  except that, for want of an own property, the key \<^verbatim>\<open>__proto__\<close> reaches the setter
  of the prototype (\<open>None\<close>).
\<close>

definition orders_set :: "string \<Rightarrow> slot \<Rightarrow> cart_manager \<Rightarrow> cart_manager option" where
  "orders_set k v s =
     (if map_of (orders s) k = None \<and> map_of object_prototype k = Some ProtoObject then None
      else Some (s\<lparr>orders := AList.update k v (orders s)\<rparr>))"

subsection \<open>The cart: the active order's array\<close>

text \<open>\<^verbatim>\<open>get cart() { return this.orders[this.activeOrderId] || []; }\<close>\<close>

definition cart :: "cart_manager \<Rightarrow> slot" where
  "cart s = (case orders_get s (activeOrderId s) of Some v \<Rightarrow> v | None \<Rightarrow> Rows [])"

text \<open>
  \<^verbatim>\<open>this.cart.push(x)\<close> and \<^verbatim>\<open>this.cart.splice(i, 1)\<close>, called when the getter yields
  an array, change that array: the order's own array or, when the active order does
  not exist, a temporary empty array that is dropped.
\<close>

definition cart_push :: "item \<Rightarrow> cart_manager \<Rightarrow> cart_manager" where
  "cart_push x s =
     (case map_of (orders s) (activeOrderId s) of
        Some (Rows rows) \<Rightarrow>
          s\<lparr>heap := heap s @ [x],
            orders := AList.update (activeOrderId s) (Rows (rows @ [length (heap s)]))
                        (orders s)\<rparr>
      | _ \<Rightarrow> s)"

definition cart_splice :: "nat \<Rightarrow> cart_manager \<Rightarrow> cart_manager" where
  "cart_splice i s =
     (case map_of (orders s) (activeOrderId s) of
        Some (Rows rows) \<Rightarrow>
          s\<lparr>orders := AList.update (activeOrderId s) (Rows (take i rows @ drop (Suc i) rows))
                        (orders s)\<rparr>
      | _ \<Rightarrow> s)"

text \<open>
  \<^verbatim>\<open>updateCartDisplay\<close> changes no field. With an array for a cart it does not throw.
  With a member of the prototype it throws where it calls \<^verbatim>\<open>getItemCount()\<close> (the
  element \<^verbatim>\<open>.cart-count\<close> is there), \<^verbatim>\<open>this.cart.map\<close> in \<^verbatim>\<open>renderCartItems\<close> (the
  element \<^verbatim>\<open>.cart-items\<close> is there and \<^verbatim>\<open>this.cart.length\<close> is not 0) or \<^verbatim>\<open>getTotal()\<close>
  (the element \<^verbatim>\<open>#total-amount\<close> is there).
\<close>

definition display_throws :: "cart_manager \<Rightarrow> bool" where
  "display_throws s =
     (case cart s of
        Rows rows \<Rightarrow> False
      | Member m \<Rightarrow>
          has_cart_count (page s) \<or> (has_cart_items (page s) \<and> m \<noteq> Function 0)
          \<or> has_total_amount (page s))"

definition updateCartDisplay :: "cart_manager \<Rightarrow> unit outcome" where
  "updateCartDisplay s = (if display_throws s then TypeError else Return ())"

text \<open>
  \<^verbatim>\<open>set cart(items)\<close>: an assignment to \<^verbatim>\<open>this.orders[this.activeOrderId]\<close>, then
  \<^verbatim>\<open>saveOrders\<close> and \<^verbatim>\<open>updateCartDisplay\<close>.
\<close>

definition set_cart :: "addr list \<Rightarrow> cart_manager \<Rightarrow> unit outcome \<times> cart_manager" where
  "set_cart rows s =
     (case orders_set (activeOrderId s) (Rows rows) s of
        None \<Rightarrow> (PrototypeReplaced, s)
      | Some s1 \<Rightarrow> (updateCartDisplay s1, s1))"

subsection \<open>Cart operations\<close>

text \<open>
  \<^verbatim>\<open>this.cart.find\<close> is the first use of the cart: on a member of the prototype it
  is \<^verbatim>\<open>undefined\<close> and the call throws.
\<close>

definition addItem ::
  "env \<Rightarrow> descriptor option \<Rightarrow> cart_manager \<Rightarrow> bool outcome \<times> cart_manager" where
  "addItem e item s =
     (case item of
        None \<Rightarrow> (Return False, s)
      | Some d \<Rightarrow>
         (case d_name d of
            None \<Rightarrow> (Return False, s)
          | Some nm \<Rightarrow>
             if nm = [] then (Return False, s)
             else
              (case d_price d of
                 None \<Rightarrow> (Return False, s)
               | Some NaN \<Rightarrow> (Return False, s)
               | Some (Num p) \<Rightarrow>
                  if p = 0 then (Return False, s)
                  else
                    let sanitizedItem =
                          \<lparr>i_id = (case d_id d of
                                     None \<Rightarrow> generateItemId e nm
                                   | Some i \<Rightarrow> if i = [] then generateItemId e nm else i),
                           i_name = sanitizeInput nm,
                           i_price = p,
                           i_quantity = quantity_or_1 (d_quantity d)\<rparr>
                    in case cart s of
                         Member m \<Rightarrow> (TypeError, s)
                       | Rows rows \<Rightarrow>
                          let existingItem =
                                find (\<lambda>a. i_name (heap s ! a) = i_name sanitizedItem
                                          \<and> i_price (heap s ! a) = i_price sanitizedItem) rows;
                              s1 = (case existingItem of
                                      Some a \<Rightarrow>
                                        s\<lparr>heap := (heap s)[a := (heap s ! a)
                                             \<lparr>i_quantity := i_quantity (heap s ! a)
                                                              + i_quantity sanitizedItem\<rparr>]\<rparr>
                                    | None \<Rightarrow> cart_push sanitizedItem s)
                          in (Return True,
                              showNotification (i_name sanitizedItem @ '' added to cart!'')
                                ''success'' s1))))"

text \<open>
  The test \<^verbatim>\<open>index >= 0 && index < this.cart.length\<close>: the \<^verbatim>\<open>length\<close> of a function
  is its number of parameters, that of the prototype object is \<^verbatim>\<open>undefined\<close>. Inside,
  \<^verbatim>\<open>this.cart[index]\<close> of a function is \<^verbatim>\<open>undefined\<close> and reading \<^verbatim>\<open>.name\<close> throws.
\<close>

definition removeItem :: "int \<Rightarrow> cart_manager \<Rightarrow> unit outcome \<times> cart_manager" where
  "removeItem index s =
     (case cart s of
        Rows rows \<Rightarrow>
          if 0 \<le> index \<and> index < int (length rows) then
            let itemName = i_name (heap s ! (rows ! nat index));
                s1 = cart_splice (nat index) s
            in (Return (), showNotification (itemName @ '' removed from cart!'') ''info'' s1)
          else (Return (), s)
      | Member (Function n) \<Rightarrow>
          if 0 \<le> index \<and> index < int n then (TypeError, s) else (Return (), s)
      | Member ProtoObject \<Rightarrow> (Return (), s))"

text \<open>
  On a function both branches throw: the write to \<^verbatim>\<open>this.cart[index].quantity\<close> and
  the call of \<^verbatim>\<open>this.cart.splice\<close>.
\<close>

definition updateQuantity ::
  "int \<Rightarrow> jsnum option \<Rightarrow> cart_manager \<Rightarrow> unit outcome \<times> cart_manager" where
  "updateQuantity index qty s =
     (case cart s of
        Rows rows \<Rightarrow>
          if 0 \<le> index \<and> index < int (length rows) then
            (case parseInt qty of
               None \<Rightarrow> (Return (), cart_splice (nat index) s)
             | Some newQuantity \<Rightarrow>
                 if newQuantity > 0 then
                   (Return (),
                    s\<lparr>heap := (heap s)[rows ! nat index :=
                         (heap s ! (rows ! nat index))\<lparr>i_quantity := newQuantity\<rparr>]\<rparr>)
                 else (Return (), cart_splice (nat index) s))
          else (Return (), s)
      | Member (Function n) \<Rightarrow>
          if 0 \<le> index \<and> index < int n then (TypeError, s) else (Return (), s)
      | Member ProtoObject \<Rightarrow> (Return (), s))"

text \<open>\<^verbatim>\<open>reduce\<close> runs from the left, starting at 0; a member of the prototype has none.\<close>

definition items_total :: "item list \<Rightarrow> real" where
  "items_total its = foldl (\<lambda>sum it. sum + i_price it * of_int (i_quantity it)) 0 its"

definition items_count :: "item list \<Rightarrow> int" where
  "items_count its = foldl (\<lambda>count it. count + i_quantity it) 0 its"

definition getTotal :: "cart_manager \<Rightarrow> real outcome" where
  "getTotal s =
     (case cart s of
        Rows rows \<Rightarrow> Return (items_total (map (\<lambda>a. heap s ! a) rows))
      | Member m \<Rightarrow> TypeError)"

definition getItemCount :: "cart_manager \<Rightarrow> int outcome" where
  "getItemCount s =
     (case cart s of
        Rows rows \<Rightarrow> Return (items_count (map (\<lambda>a. heap s ! a) rows))
      | Member m \<Rightarrow> TypeError)"

definition clearCart :: "cart_manager \<Rightarrow> unit outcome \<times> cart_manager" where
  "clearCart s =
     (case set_cart [] s of
        (Return u, s1) \<Rightarrow>
          (case updateCartDisplay s1 of
             Return u' \<Rightarrow> (Return (), showNotification ''Cart cleared!'' ''info'' s1)
           | TypeError \<Rightarrow> (TypeError, s1)
           | PrototypeReplaced \<Rightarrow> (PrototypeReplaced, s1))
      | (TypeError, s1) \<Rightarrow> (TypeError, s1)
      | (PrototypeReplaced, s1) \<Rightarrow> (PrototypeReplaced, s1))"

subsection \<open>Multiple orders\<close>

text \<open>
  The test \<^verbatim>\<open>this.orders[orderId]\<close> is one of truthiness: arrays, also empty ones,
  and the members of the prototype pass it.
\<close>

definition switchToOrder :: "string \<Rightarrow> cart_manager \<Rightarrow> unit outcome \<times> cart_manager" where
  "switchToOrder orderId s =
     (case orders_get s orderId of
        Some v \<Rightarrow>
          (let s1 = s\<lparr>activeOrderId := orderId\<rparr>
           in case updateCartDisplay s1 of
                Return u \<Rightarrow>
                  (Return (), showNotification (''Switched to order: '' @ orderId) ''info'' s1)
              | TypeError \<Rightarrow> (TypeError, s1)
              | PrototypeReplaced \<Rightarrow> (PrototypeReplaced, s1))
      | None \<Rightarrow> (Return (), showNotification (''Order not found: '' @ orderId) ''error'' s))"

text \<open>\<^verbatim>\<open>name || this.generateOrderId()\<close>: an absent or empty name is falsy.\<close>

definition createOrder ::
  "env \<Rightarrow> string option \<Rightarrow> cart_manager \<Rightarrow> string outcome \<times> cart_manager" where
  "createOrder e name s =
     (let orderId = (case name of
                       None \<Rightarrow> generateOrderId e ''order''
                     | Some n \<Rightarrow> if n = [] then generateOrderId e ''order'' else n)
      in case orders_get s orderId of
           None \<Rightarrow>
             (case orders_set orderId (Rows []) s of
                None \<Rightarrow> (PrototypeReplaced, s)
              | Some s1 \<Rightarrow>
                  (case switchToOrder orderId s1 of
                     (Return u, s2) \<Rightarrow>
                       (Return orderId,
                        showNotification (''Created new order: '' @ orderId) ''success'' s2)
                   | (TypeError, s2) \<Rightarrow> (TypeError, s2)
                   | (PrototypeReplaced, s2) \<Rightarrow> (PrototypeReplaced, s2)))
         | Some v \<Rightarrow> (Return orderId, s))"

text \<open>The spread \<^verbatim>\<open>[...this.cart]\<close> throws on what is not iterable.\<close>

definition duplicateCurrentOrder ::
  "env \<Rightarrow> cart_manager \<Rightarrow> string outcome \<times> cart_manager" where
  "duplicateCurrentOrder e s =
     (case cart s of
        Member m \<Rightarrow> (TypeError, s)
      | Rows currentItems \<Rightarrow>
          (let newOrderId = generateOrderId e ''copy''
           in case orders_set newOrderId (Rows currentItems) s of
                None \<Rightarrow> (PrototypeReplaced, s)
              | Some s1 \<Rightarrow>
                  (Return newOrderId,
                   showNotification (''Duplicated order as: '' @ newOrderId) ''success'' s1)))"

text \<open>\<^verbatim>\<open>delete this.orders[orderId]\<close> removes an own property and nothing else.\<close>

definition deleteOrder :: "string \<Rightarrow> cart_manager \<Rightarrow> bool outcome \<times> cart_manager" where
  "deleteOrder orderId s =
     (if orderId = ''default'' then
        (Return False, showNotification ''Cannot delete default order'' ''error'' s)
      else
        (case orders_get s orderId of
           Some v \<Rightarrow>
             (let s1 = s\<lparr>orders := AList.delete orderId (orders s)\<rparr>
              in if activeOrderId s1 = orderId then
                   (case switchToOrder ''default'' s1 of
                      (Return u, s2) \<Rightarrow>
                        (Return True,
                         showNotification (''Deleted order: '' @ orderId) ''info'' s2)
                    | (TypeError, s2) \<Rightarrow> (TypeError, s2)
                    | (PrototypeReplaced, s2) \<Rightarrow> (PrototypeReplaced, s2))
                 else
                   (Return True, showNotification (''Deleted order: '' @ orderId) ''info'' s1))
         | None \<Rightarrow> (Return False, s)))"

text \<open>
  \<^verbatim>\<open>Object.keys\<close>: the own keys, those that are array indices first, in ascending
  numeric order, then the others in the order of their creation.
\<close>

definition digit_value :: "char \<Rightarrow> nat option" where
  "digit_value c = map_of (zip ''0123456789'' [0, 1, 2, 3, 4, 5, 6, 7, 8, 9]) c"

definition decimal_value :: "string \<Rightarrow> nat" where
  "decimal_value k =
     foldl (\<lambda>n c. 10 * n + (case digit_value c of Some d \<Rightarrow> d | None \<Rightarrow> 0)) 0 k"

definition is_index :: "string \<Rightarrow> bool" where
  "is_index k =
     (case k of
        [] \<Rightarrow> False
      | c # cs \<Rightarrow>
          list_all (\<lambda>c. digit_value c \<noteq> None) k \<and> (c \<noteq> CHR ''0'' \<or> cs = [])
          \<and> decimal_value k < 4294967295)"

definition object_keys :: "(string \<times> 'v) list \<Rightarrow> string list" where
  "object_keys al =
     sort_key decimal_value (filter is_index (map fst al))
     @ filter (\<lambda>k. \<not> is_index k) (map fst al)"

definition getAllOrderIds :: "cart_manager \<Rightarrow> string list" where
  "getAllOrderIds s = object_keys (orders s)"

text \<open>
  \<^verbatim>\<open>renameOrder\<close> does not touch the cart. The new id passes \<^verbatim>\<open>!this.orders[newOrderId]\<close>,
  so it is no inherited name and the assignment creates an own property; it holds
  whatever \<^verbatim>\<open>this.orders[oldOrderId]\<close> gave.
\<close>

definition renameOrder :: "string \<Rightarrow> string \<Rightarrow> cart_manager \<Rightarrow> bool \<times> cart_manager" where
  "renameOrder oldOrderId newOrderId s =
     (case orders_get s oldOrderId of
        None \<Rightarrow> (False, s)
      | Some v \<Rightarrow>
         (case orders_get s newOrderId of
            Some other \<Rightarrow> (False, s)
          | None \<Rightarrow>
             (let s1 = s\<lparr>orders := AList.delete oldOrderId
                                     (AList.update newOrderId v (orders s))\<rparr>;
                  s2 = (if activeOrderId s1 = oldOrderId
                        then s1\<lparr>activeOrderId := newOrderId\<rparr> else s1)
              in (True, showNotification (''Renamed order to: '' @ newOrderId) ''success'' s2))))"

subsection \<open>Order templates\<close>

text \<open>
  The snapshot \<^verbatim>\<open>items: [...this.cart]\<close> is taken first among the fields and throws
  on a member of the prototype; on an array \<^verbatim>\<open>getTotal()\<close> and \<^verbatim>\<open>getItemCount()\<close>
  return.
\<close>

definition saveAsTemplate ::
  "env \<Rightarrow> string \<Rightarrow> cart_manager \<Rightarrow> string option outcome \<times> cart_manager" where
  "saveAsTemplate e templateName s =
     (if templateName = [] \<or> trim templateName = [] then
        (Return None, showNotification ''Please enter a template name'' ''error'' s)
      else
        let sanitizedName = sanitizeInput (trim templateName)
        in case find (\<lambda>t. t_name t = sanitizedName) (orderTemplates s) of
             Some t \<Rightarrow>
               (Return None,
                showNotification ''Template with this name already exists'' ''error'' s)
           | None \<Rightarrow>
               (case cart s of
                  Member m \<Rightarrow> (TypeError, s)
                | Rows rows \<Rightarrow>
                    let template =
                          \<lparr>t_id = generateOrderId e ''template'',
                           t_name = sanitizedName,
                           t_items = rows,
                           t_createdAt = e_iso e,
                           t_total = items_total (map (\<lambda>a. heap s ! a) rows),
                           t_itemCount = items_count (map (\<lambda>a. heap s ! a) rows),
                           t_updatedAt = None\<rparr>
                    in (Return (Some (t_id template)),
                        showNotification (''Saved template: '' @ sanitizedName) ''success''
                          (s\<lparr>orderTemplates := orderTemplates s @ [template]\<rparr>))))"

text \<open>\<^verbatim>\<open>targetOrderId || this.activeOrderId\<close>: an absent or empty target is falsy.\<close>

definition loadTemplate ::
  "string \<Rightarrow> string option \<Rightarrow> cart_manager \<Rightarrow> bool outcome \<times> cart_manager" where
  "loadTemplate templateId targetOrderId s =
     (case find (\<lambda>t. t_id t = templateId) (orderTemplates s) of
        None \<Rightarrow> (Return False, showNotification ''Template not found'' ''error'' s)
      | Some template \<Rightarrow>
          let orderId = (case targetOrderId of
                           None \<Rightarrow> activeOrderId s
                         | Some t \<Rightarrow> if t = [] then activeOrderId s else t)
          in case orders_set orderId (Rows (t_items template)) s of
               None \<Rightarrow> (PrototypeReplaced, s)
             | Some s1 \<Rightarrow>
                 (case updateCartDisplay s1 of
                    Return u \<Rightarrow>
                      (Return True,
                       showNotification (''Loaded template: '' @ t_name template) ''success'' s1)
                  | TypeError \<Rightarrow> (TypeError, s1)
                  | PrototypeReplaced \<Rightarrow> (PrototypeReplaced, s1)))"

text \<open>\<^verbatim>\<open>findIndex\<close> followed by \<^verbatim>\<open>splice(index, 1)\<close>: the first match goes.\<close>

fun remove_first :: "('a \<Rightarrow> bool) \<Rightarrow> 'a list \<Rightarrow> 'a list" where
  "remove_first P [] = []"
| "remove_first P (x # xs) = (if P x then xs else x # remove_first P xs)"

text \<open>A write to the fields of the object that \<^verbatim>\<open>find\<close> returned: the first match.\<close>

fun update_first :: "('a \<Rightarrow> bool) \<Rightarrow> ('a \<Rightarrow> 'a) \<Rightarrow> 'a list \<Rightarrow> 'a list" where
  "update_first P f [] = []"
| "update_first P f (x # xs) = (if P x then f x # xs else x # update_first P f xs)"

definition deleteTemplate :: "string \<Rightarrow> cart_manager \<Rightarrow> bool \<times> cart_manager" where
  "deleteTemplate templateId s =
     (case find (\<lambda>t. t_id t = templateId) (orderTemplates s) of
        Some template \<Rightarrow>
          (True,
           showNotification (''Deleted template: '' @ t_name template) ''info''
             (s\<lparr>orderTemplates := remove_first (\<lambda>t. t_id t = templateId) (orderTemplates s)\<rparr>))
      | None \<Rightarrow> (False, s))"

definition getAllTemplates :: "cart_manager \<Rightarrow> template list" where
  "getAllTemplates s = orderTemplates s"

definition getTemplate :: "string \<Rightarrow> cart_manager \<Rightarrow> template option" where
  "getTemplate templateId s = find (\<lambda>t. t_id t = templateId) (orderTemplates s)"

text \<open>
  \<^verbatim>\<open>newItems\<close> is an array of references to item objects; an empty array is truthy,
  an empty name is not.
\<close>

definition updateTemplate ::
  "env \<Rightarrow> string \<Rightarrow> string option \<Rightarrow> addr list option \<Rightarrow> cart_manager \<Rightarrow> bool \<times> cart_manager" where
  "updateTemplate e templateId newName newItems s =
     (case find (\<lambda>t. t_id t = templateId) (orderTemplates s) of
        None \<Rightarrow> (False, s)
      | Some template \<Rightarrow>
          let rename = (\<lambda>t. case newName of
                              None \<Rightarrow> t
                            | Some n \<Rightarrow> if n = [] then t
                                        else t\<lparr>t_name := sanitizeInput (trim n)\<rparr>);
              reitem = (\<lambda>t. case newItems of
                              None \<Rightarrow> t
                            | Some rows \<Rightarrow>
                                t\<lparr>t_items := rows,
                                  t_total := items_total (map (\<lambda>a. heap s ! a) rows),
                                  t_itemCount := items_count (map (\<lambda>a. heap s ! a) rows)\<rparr>);
              stamp = (\<lambda>t. t\<lparr>t_updatedAt := Some (e_iso e)\<rparr>)
          in (True,
              showNotification ''Template updated successfully'' ''success''
                (s\<lparr>orderTemplates :=
                     update_first (\<lambda>t. t_id t = templateId) (\<lambda>t. stamp (reitem (rename t)))
                       (orderTemplates s)\<rparr>)))"

definition duplicateTemplate ::
  "env \<Rightarrow> string \<Rightarrow> string option \<Rightarrow> cart_manager \<Rightarrow> string option \<times> cart_manager" where
  "duplicateTemplate e templateId newName s =
     (case getTemplate templateId s of
        None \<Rightarrow> (None, s)
      | Some template \<Rightarrow>
          let newTemplate =
                template\<lparr>t_id := generateOrderId e ''template'',
                         t_name := (case newName of
                                      None \<Rightarrow> t_name template @ '' (Copy)''
                                    | Some n \<Rightarrow> if n = [] then t_name template @ '' (Copy)''
                                                else n),
                         t_createdAt := e_iso e\<rparr>
          in (Some (t_id newTemplate),
              showNotification (''Duplicated template as: '' @ t_name newTemplate) ''success''
                (s\<lparr>orderTemplates := orderTemplates s @ [newTemplate]\<rparr>)))"

subsection \<open>Construction and runs of operations\<close>

definition initializeDefaultOrder :: "cart_manager \<Rightarrow> cart_manager" where
  "initializeDefaultOrder s =
     (case orders_get s ''default'' of
        None \<Rightarrow> s\<lparr>orders := AList.update ''default'' (Rows []) (orders s)\<rparr>
      | Some v \<Rightarrow> s)"

text \<open>The constructor on an empty \<^verbatim>\<open>localStorage\<close>, in a page.\<close>

definition construct :: "page \<Rightarrow> cart_manager" where
  "construct pg =
     initializeDefaultOrder
       \<lparr>activeOrderId = ''default'', orders = [], orderTemplates = [], heap = [],
        notifications = [], page = pg\<rparr>"

text \<open>The manager of a page that has the three elements of the display.\<close>

definition new_CartManager :: cart_manager where
  "new_CartManager =
     construct \<lparr>has_cart_count = True, has_cart_items = True, has_total_amount = True\<rparr>"

datatype operation =
    AddItem env "descriptor option"
  | RemoveItem int
  | UpdateQuantity int "jsnum option"
  | ClearCart
  | CreateOrder env "string option"
  | SwitchToOrder string
  | DuplicateCurrentOrder env
  | DeleteOrder string
  | RenameOrder string string
  | SaveAsTemplate env string
  | LoadTemplate string "string option"
  | DeleteTemplate string
  | UpdateTemplate env string "string option" "addr list option"
  | DuplicateTemplate env string "string option"

text \<open>
  One call of the public interface; the returned value is dropped, the way the call
  ended is kept.
\<close>

definition ended :: "'a outcome \<times> cart_manager \<Rightarrow> unit outcome \<times> cart_manager" where
  "ended r =
     (case r of
        (Return v, s) \<Rightarrow> (Return (), s)
      | (TypeError, s) \<Rightarrow> (TypeError, s)
      | (PrototypeReplaced, s) \<Rightarrow> (PrototypeReplaced, s))"

fun exec :: "operation \<Rightarrow> cart_manager \<Rightarrow> unit outcome \<times> cart_manager" where
  "exec (AddItem e d) s = ended (addItem e d s)"
| "exec (RemoveItem i) s = removeItem i s"
| "exec (UpdateQuantity i q) s = updateQuantity i q s"
| "exec ClearCart s = clearCart s"
| "exec (CreateOrder e n) s = ended (createOrder e n s)"
| "exec (SwitchToOrder k) s = switchToOrder k s"
| "exec (DuplicateCurrentOrder e) s = ended (duplicateCurrentOrder e s)"
| "exec (DeleteOrder k) s = ended (deleteOrder k s)"
| "exec (RenameOrder k k') s = (Return (), snd (renameOrder k k' s))"
| "exec (SaveAsTemplate e n) s = ended (saveAsTemplate e n s)"
| "exec (LoadTemplate t k) s = ended (loadTemplate t k s)"
| "exec (DeleteTemplate t) s = (Return (), snd (deleteTemplate t s))"
| "exec (UpdateTemplate e t n its) s = (Return (), snd (updateTemplate e t n its s))"
| "exec (DuplicateTemplate e t n) s = (Return (), snd (duplicateTemplate e t n s))"

text \<open>
  A run is a left-to-right sequence of calls, each made by an event handler: a call
  that throws ends its handler and the next call finds the state it left. The run
  has no state (\<open>None\<close>) once a call has replaced the prototype of \<^verbatim>\<open>orders\<close>.
\<close>

fun run :: "operation list \<Rightarrow> cart_manager \<Rightarrow> cart_manager option" where
  "run [] s = Some s"
| "run (op # ops) s =
     (case exec op s of
        (PrototypeReplaced, s1) \<Rightarrow> None
      | (Return u, s1) \<Rightarrow> run ops s1
      | (TypeError, s1) \<Rightarrow> run ops s1)"

subsection \<open>Notions used in the properties\<close>

text \<open>An order of that id exists: \<^verbatim>\<open>orders\<close> has it as an own property.\<close>

definition has_order :: "cart_manager \<Rightarrow> string \<Rightarrow> bool" where
  "has_order s k = (map_of (orders s) k \<noteq> None)"

text \<open>
  The invariant of the order store in the data model: the order \<^verbatim>\<open>"default"\<close> exists
  and \<^verbatim>\<open>activeOrderId\<close> names an existing order.
\<close>

definition store_inv :: "cart_manager \<Rightarrow> bool" where
  "store_inv s = (has_order s ''default'' \<and> has_order s (activeOrderId s))"

text \<open>
  The item objects of the cart, read through the references; there are none when the
  getter yields no array of the store.
\<close>

definition cart_items :: "cart_manager \<Rightarrow> item list" where
  "cart_items s = (case cart s of Rows rows \<Rightarrow> map (\<lambda>a. heap s ! a) rows | Member m \<Rightarrow> [])"

text \<open>
  The totals as the specification words them: the sum over the items of price times
  quantity, and the sum of the quantities.
\<close>

definition spec_total :: "item list \<Rightarrow> real" where
  "spec_total its = (\<Sum>it\<leftarrow>its. i_price it * of_int (i_quantity it))"

definition spec_itemCount :: "item list \<Rightarrow> int" where
  "spec_itemCount its = (\<Sum>it\<leftarrow>its. i_quantity it)"

text \<open>Data of the scenarios: a clock reading, and the pizza at 250 of the specification.\<close>

definition example_env :: env where
  "example_env =
     \<lparr>e_now = ''1700000000000'', e_rnd = ''abcde'', e_iso = ''2024-01-01T00:00:00.000Z''\<rparr>"

definition pizza :: "real \<Rightarrow> descriptor" where
  "pizza q =
     \<lparr>d_name = Some ''Pizza'', d_price = Some (Num 250), d_quantity = Some (Num q),
      d_id = None\<rparr>"

text \<open>A page without the elements of the display.\<close>

definition bare_page :: page where
  "bare_page = \<lparr>has_cart_count = False, has_cart_items = False, has_total_amount = False\<rparr>"

text \<open>
  Validity of the references: every address held by an order or a template is an
  allocated item object. In JavaScript a reference cannot dangle; in the model this
  is an invariant of the store.
\<close>

definition refs_ok :: "cart_manager \<Rightarrow> bool" where
  "refs_ok s =
     ((\<forall>k rows. map_of (orders s) k = Some (Rows rows) \<longrightarrow>
          (\<forall>a\<in>set rows. a < length (heap s))) \<and>
      (\<forall>t\<in>set (orderTemplates s). \<forall>a\<in>set (t_items t). a < length (heap s)))"

text \<open>The items of a template, read through the references it holds.\<close>

definition template_items :: "cart_manager \<Rightarrow> template \<Rightarrow> item list" where
  "template_items s t = map (\<lambda>a. heap s ! a) (t_items t)"

text \<open>The identity test of \<^verbatim>\<open>addItem\<close>: same name and same price.\<close>

definition same_item :: "string \<Rightarrow> real \<Rightarrow> item \<Rightarrow> bool" where
  "same_item nm p it = (i_name it = nm \<and> i_price it = p)"

text \<open>A sequence of \<^verbatim>\<open>addItem\<close> calls, with the way each call ended.\<close>

fun addItems ::
  "(env \<times> descriptor) list \<Rightarrow> cart_manager \<Rightarrow> bool outcome list \<times> cart_manager" where
  "addItems [] s = ([], s)"
| "addItems ((e, d) # cs) s =
     (let (ok, s1) = addItem e (Some d) s;
          (oks, s2) = addItems cs s1
      in (ok # oks, s2))"

section \<open>Basic facts\<close>

lemma showNotification_fields [simp]:
  "activeOrderId (showNotification m t s) = activeOrderId s"
  "orders (showNotification m t s) = orders s"
  "orderTemplates (showNotification m t s) = orderTemplates s"
  "heap (showNotification m t s) = heap s"
  "page (showNotification m t s) = page s"
  by (simp_all add: showNotification_def)

lemma cart_showNotification [simp]: "cart (showNotification m t s) = cart s"
  by (simp add: cart_def orders_get_def)

lemma orders_get_own:
  "map_of (orders s) k = Some v \<Longrightarrow> orders_get s k = Some v"
  by (simp add: orders_get_def)

lemma orders_get_None:
  "orders_get s k = None \<longleftrightarrow> map_of (orders s) k = None \<and> map_of object_prototype k = None"
  by (simp add: orders_get_def split: option.split)

lemma has_order_orders_get:
  "has_order s k \<Longrightarrow> orders_get s k \<noteq> None"
  by (auto simp: has_order_def orders_get_def)

lemma default_not_inherited [simp]: "map_of object_prototype ''default'' = None"
  by (simp add: object_prototype_def)

lemma has_order_simps [simp]:
  "has_order (s\<lparr>orders := AList.update k v (orders s)\<rparr>) k' = (k' = k \<or> has_order s k')"
  "has_order (s\<lparr>orders := AList.delete k (orders s)\<rparr>) k' = (k' \<noteq> k \<and> has_order s k')"
  "has_order (s\<lparr>activeOrderId := a\<rparr>) k' = has_order s k'"
  "has_order (s\<lparr>orderTemplates := ts\<rparr>) k' = has_order s k'"
  "has_order (s\<lparr>heap := h\<rparr>) k' = has_order s k'"
  "has_order (s\<lparr>notifications := n\<rparr>) k' = has_order s k'"
  by (auto simp: has_order_def AList.update_conv' AList.delete_conv')

lemma has_order_showNotification [simp]:
  "has_order (showNotification m t s) k = has_order s k"
  by (simp add: showNotification_def)


lemma cart_own:
  "map_of (orders s) (activeOrderId s) = Some v \<Longrightarrow> cart s = v"
  by (simp add: cart_def orders_get_def)

text \<open>The states of the scenarios.\<close>

lemma new_CartManager_eq:
  "new_CartManager =
     \<lparr>activeOrderId = ''default'', orders = [(''default'', Rows [])], orderTemplates = [],
      heap = [], notifications = [],
      page = \<lparr>has_cart_count = True, has_cart_items = True, has_total_amount = True\<rparr>\<rparr>"
  by (simp add: new_CartManager_def construct_def initializeDefaultOrder_def orders_get_def)

lemma construct_eq:
  "construct pg =
     \<lparr>activeOrderId = ''default'', orders = [(''default'', Rows [])], orderTemplates = [],
      heap = [], notifications = [], page = pg\<rparr>"
  by (simp add: construct_def initializeDefaultOrder_def orders_get_def)

lemma pizza_state:
  "addItem example_env (Some (pizza 2)) new_CartManager =
     (Return True,
      \<lparr>activeOrderId = ''default'', orders = [(''default'', Rows [0])], orderTemplates = [],
       heap = [\<lparr>i_id = ''item-pizza-1700000000000'', i_name = ''Pizza'', i_price = 250,
                i_quantity = 2\<rparr>],
       notifications = [(''Pizza added to cart!'', ''success'')],
       page = \<lparr>has_cart_count = True, has_cart_items = True, has_total_amount = True\<rparr>\<rparr>)"
  by (simp add: new_CartManager_eq addItem_def pizza_def example_env_def cart_def orders_get_def
      cart_push_def showNotification_def quantity_or_1_def parseInt_def generateItemId_def
      toLowerCase_def is_ws_def)

lemma lunch_state:
  "createOrder example_env (Some ''lunch'') new_CartManager =
    (Return ''lunch'',
     \<lparr>activeOrderId = ''lunch'', orders = [(''default'', Rows []), (''lunch'', Rows [])],
      orderTemplates = [], heap = [],
      notifications = [(''Switched to order: lunch'', ''info''),
                       (''Created new order: lunch'', ''success'')],
      page = \<lparr>has_cart_count = True, has_cart_items = True, has_total_amount = True\<rparr>\<rparr>)"
  by (simp add: new_CartManager_eq createOrder_def switchToOrder_def showNotification_def
      orders_get_def orders_set_def object_prototype_def updateCartDisplay_def
      display_throws_def cart_def Let_def)

text \<open>
  After \<^verbatim>\<open>createOrder("lunch")\<close> and \<^verbatim>\<open>renameOrder("default", "main")\<close>: the orders are
  \<^verbatim>\<open>"lunch"\<close>, the active one, and \<^verbatim>\<open>"main"\<close>.
\<close>

lemma renamed_state:
  "run [CreateOrder example_env (Some ''lunch''), RenameOrder ''default'' ''main'']
       new_CartManager =
    Some \<lparr>activeOrderId = ''lunch'', orders = [(''lunch'', Rows []), (''main'', Rows [])],
      orderTemplates = [], heap = [],
      notifications = [(''Switched to order: lunch'', ''info''),
                       (''Created new order: lunch'', ''success''),
                       (''Renamed order to: main'', ''success'')],
      page = \<lparr>has_cart_count = True, has_cart_items = True, has_total_amount = True\<rparr>\<rparr>"
  by (simp add: lunch_state ended_def renameOrder_def showNotification_def orders_get_def
      object_prototype_def Let_def)

text \<open>
  After \<^verbatim>\<open>deleteOrder("lunch")\<close> on top of that: the fallback to \<^verbatim>\<open>"default"\<close> found no
  such order.
\<close>

lemma dangling_state:
  "run [CreateOrder example_env (Some ''lunch''), RenameOrder ''default'' ''main'',
        DeleteOrder ''lunch''] new_CartManager =
    Some \<lparr>activeOrderId = ''lunch'', orders = [(''main'', Rows [])],
      orderTemplates = [], heap = [],
      notifications = [(''Switched to order: lunch'', ''info''),
                       (''Created new order: lunch'', ''success''),
                       (''Renamed order to: main'', ''success''),
                       (''Order not found: default'', ''error''),
                       (''Deleted order: lunch'', ''info'')],
      page = \<lparr>has_cart_count = True, has_cart_items = True, has_total_amount = True\<rparr>\<rparr>"
  by (simp add: lunch_state ended_def renameOrder_def deleteOrder_def switchToOrder_def
      showNotification_def orders_get_def object_prototype_def Let_def)

section \<open>The invariant of the order store\<close>

lemma store_inv_new: "store_inv new_CartManager"
  by (simp add: store_inv_def has_order_def new_CartManager_eq)

text \<open>
  Claim C1: in every reachable state the order \<^verbatim>\<open>"default"\<close> exists and
  \<^verbatim>\<open>activeOrderId\<close> names an existing order; no call, \<^verbatim>\<open>renameOrder("default", newId)\<close>
  included, removes or renames \<^verbatim>\<open>"default"\<close>. The code does not keep this:
  \<^verbatim>\<open>renameOrder\<close> has no guard for \<^verbatim>\<open>"default"\<close> (\<^verbatim>\<open>deleteOrder\<close> has one). On the freshly
  constructed manager \<^verbatim>\<open>renameOrder("default", "main")\<close> succeeds and leaves \<^verbatim>\<open>"main"\<close>
  as the only order; and after \<^verbatim>\<open>createOrder("lunch")\<close>,
  \<^verbatim>\<open>renameOrder("default", "main")\<close>, \<^verbatim>\<open>deleteOrder("lunch")\<close> the fallback to
  \<^verbatim>\<open>"default"\<close> finds no such order, so \<^verbatim>\<open>activeOrderId\<close> stays \<^verbatim>\<open>"lunch"\<close>, which no
  longer exists.
\<close>

theorem renameOrder_default_breaks_invariant:
  "store_inv new_CartManager \<and>
   fst (renameOrder ''default'' ''main'' new_CartManager) \<and>
   getAllOrderIds (snd (renameOrder ''default'' ''main'' new_CartManager)) = [''main''] \<and>
   \<not> has_order (snd (renameOrder ''default'' ''main'' new_CartManager)) ''default'' \<and>
   map_option activeOrderId
     (run [CreateOrder example_env (Some ''lunch''), RenameOrder ''default'' ''main'',
           DeleteOrder ''lunch''] new_CartManager) = Some ''lunch'' \<and>
   map_option getAllOrderIds
     (run [CreateOrder example_env (Some ''lunch''), RenameOrder ''default'' ''main'',
           DeleteOrder ''lunch''] new_CartManager) = Some [''main''] \<and>
   map_option store_inv
     (run [CreateOrder example_env (Some ''lunch''), RenameOrder ''default'' ''main'',
           DeleteOrder ''lunch''] new_CartManager) = Some False"
proof -
  have a: "fst (renameOrder ''default'' ''main'' new_CartManager) \<and>
      orders (snd (renameOrder ''default'' ''main'' new_CartManager)) = [(''main'', Rows [])]"
    by (simp add: new_CartManager_eq renameOrder_def showNotification_def orders_get_def
        object_prototype_def)
  have k: "object_keys [(''main'', Rows [])] = [''main'']"
    by (simp add: object_keys_def is_index_def digit_value_def)
  show ?thesis using a store_inv_new
    by (simp only: dangling_state)
       (simp add: store_inv_def has_order_def getAllOrderIds_def k)
qed

section \<open>Totals\<close>

lemma foldl_plus_sum_list:
  fixes z :: "'b::monoid_add"
  shows "foldl (\<lambda>acc x. acc + f x) z xs = z + sum_list (map f xs)"
  by (induction xs arbitrary: z) (simp_all add: add.assoc)

lemma items_total_eq: "items_total its = spec_total its"
  by (simp add: items_total_def spec_total_def foldl_plus_sum_list)

lemma items_count_eq: "items_count its = spec_itemCount its"
  by (simp add: items_count_def spec_itemCount_def foldl_plus_sum_list)

text \<open>
  Where the cart is an array, \<^verbatim>\<open>getTotal()\<close> and \<^verbatim>\<open>getItemCount()\<close> return the sums
  over its items; this is so after any call that leaves an array for a cart.
\<close>

lemma totals_of_array:
  assumes "cart s = Rows rows"
  shows "getTotal s = Return (spec_total (cart_items s))"
    and "getItemCount s = Return (spec_itemCount (cart_items s))"
  using assms
  by (simp_all add: getTotal_def getItemCount_def cart_items_def items_total_eq items_count_eq)

lemma totals_of_member:
  assumes "cart s = Member m"
  shows "getTotal s = TypeError" and "getItemCount s = TypeError"
  using assms by (simp_all add: getTotal_def getItemCount_def)

text \<open>
  Claim C2: after every mutating operation, \<^verbatim>\<open>switchToOrder\<close> among them,
  \<^verbatim>\<open>getTotal()\<close> is the sum over the active order's items of price times quantity and
  \<^verbatim>\<open>getItemCount()\<close> the sum of their quantities. The code does not keep this:
  \<^verbatim>\<open>switchToOrder\<close> tests \<^verbatim>\<open>this.orders[orderId]\<close> for truthiness, which the names
  inherited from \<^verbatim>\<open>Object.prototype\<close> pass. \<^verbatim>\<open>switchToOrder("constructor")\<close> on a fresh
  manager makes \<^verbatim>\<open>"constructor"\<close> the active id, though there is no such order (in a
  page with the elements of the display the call itself throws in
  \<^verbatim>\<open>updateCartDisplay\<close>, in a page without them it returns and notifies the switch);
  from then on the cart is the function \<^verbatim>\<open>Object\<close>, and \<^verbatim>\<open>getTotal()\<close> and
  \<^verbatim>\<open>getItemCount()\<close> throw \<^verbatim>\<open>TypeError\<close> instead of returning a sum.
\<close>

theorem switchToOrder_inherited_breaks_totals:
  "fst (switchToOrder ''constructor'' new_CartManager) = TypeError \<and>
   activeOrderId (snd (switchToOrder ''constructor'' new_CartManager)) = ''constructor'' \<and>
   getAllOrderIds (snd (switchToOrder ''constructor'' new_CartManager)) = [''default''] \<and>
   getTotal (snd (switchToOrder ''constructor'' new_CartManager)) = TypeError \<and>
   getItemCount (snd (switchToOrder ''constructor'' new_CartManager)) = TypeError \<and>
   fst (switchToOrder ''constructor'' (construct bare_page)) = Return () \<and>
   notifications (snd (switchToOrder ''constructor'' (construct bare_page)))
     = [(''Switched to order: constructor'', ''info'')] \<and>
   activeOrderId (snd (switchToOrder ''constructor'' (construct bare_page))) = ''constructor'' \<and>
   getTotal (snd (switchToOrder ''constructor'' (construct bare_page))) = TypeError \<and>
   getItemCount (snd (switchToOrder ''constructor'' (construct bare_page))) = TypeError"
proof -
  define s1 where "s1 = new_CartManager\<lparr>activeOrderId := ''constructor''\<rparr>"
  define s2 where "s2 = showNotification ''Switched to order: constructor'' ''info''
         ((construct bare_page)\<lparr>activeOrderId := ''constructor''\<rparr>)"
  have a: "switchToOrder ''constructor'' new_CartManager = (TypeError, s1)"
    by (simp add: s1_def new_CartManager_eq switchToOrder_def orders_get_def
        object_prototype_def updateCartDisplay_def display_throws_def cart_def)
  have b: "switchToOrder ''constructor'' (construct bare_page) = (Return (), s2)"
    by (simp add: s2_def construct_eq bare_page_def switchToOrder_def orders_get_def
        object_prototype_def updateCartDisplay_def display_throws_def cart_def)
  have c1: "cart s1 = Member (Function 1)"
    by (simp add: s1_def new_CartManager_eq cart_def orders_get_def object_prototype_def)
  have c2: "cart s2 = Member (Function 1)"
    by (simp add: s2_def construct_eq cart_def orders_get_def object_prototype_def)
  have k: "getAllOrderIds s1 = [''default'']"
    by (simp add: s1_def new_CartManager_eq getAllOrderIds_def object_keys_def is_index_def
        digit_value_def)
  have n: "notifications s2 = [(''Switched to order: constructor'', ''info'')]"
    "activeOrderId s2 = ''constructor''" "activeOrderId s1 = ''constructor''"
    by (simp_all add: s1_def s2_def construct_eq showNotification_def)
  show ?thesis
    unfolding a b fst_conv snd_conv
    using totals_of_member [OF c1] totals_of_member [OF c2] k n by simp
qed

section \<open>Coercion of the quantity\<close>

text \<open>Where the rendering of the number has no exponent, \<^verbatim>\<open>parseInt\<close> cuts towards zero.\<close>

lemma parseInt_decimal:
  assumes "r = 0 \<or> 1 / 10 ^ 6 \<le> \<bar>r\<bar>" and "\<bar>r\<bar> < 10 ^ 21"
  shows "parseInt (Some (Num r)) = Some (if r < 0 then - \<lfloor>\<bar>r\<bar>\<rfloor> else \<lfloor>\<bar>r\<bar>\<rfloor>)"
proof -
  define a where "a = \<bar>r\<bar>"
  have big: "\<not> 10 ^ 21 \<le> a" using assms(2) by (simp add: a_def)
  have small: "\<not> (0 < a \<and> a < 1 / 10 ^ 6)" using assms(1) by (auto simp: a_def)
  have "parseInt (Some (Num r)) =
      Some (let m = (if 10 ^ 21 \<le> a then lead_big a
                     else if 0 < a \<and> a < 1 / 10 ^ 6 then lead_small a
                     else \<lfloor>a\<rfloor>)
            in if r < 0 then - m else m)"
    by (simp only: parseInt_def a_def Let_def option.case jsnum.case)
  also have "\<dots> = Some (if r < 0 then - \<lfloor>a\<rfloor> else \<lfloor>a\<rfloor>)"
    using big small by (simp only: Let_def if_False)
  finally show ?thesis by (simp only: a_def)
qed

lemma quantity_or_1_cases:
  "quantity_or_1 None = 1"
  "quantity_or_1 (Some NaN) = 1"
  "quantity_or_1 (Some (Num 0)) = 1"
  "1 / 10 ^ 6 \<le> \<bar>r\<bar> \<Longrightarrow> \<bar>r\<bar> < 1 \<Longrightarrow> quantity_or_1 (Some (Num r)) = 1"
  "1 \<le> r \<Longrightarrow> r < 10 ^ 21 \<Longrightarrow> quantity_or_1 (Some (Num r)) = \<lfloor>r\<rfloor>"
  "r \<le> - 1 \<Longrightarrow> - (10 ^ 21) < r \<Longrightarrow> quantity_or_1 (Some (Num r)) = \<lceil>r\<rceil>"
proof -
  show "quantity_or_1 None = 1" "quantity_or_1 (Some NaN) = 1"
    by (simp_all add: quantity_or_1_def parseInt_def)
  show "quantity_or_1 (Some (Num 0)) = 1"
    by (simp add: quantity_or_1_def parseInt_decimal)
  show "quantity_or_1 (Some (Num r)) = 1" if "1 / 10 ^ 6 \<le> \<bar>r\<bar>" "\<bar>r\<bar> < 1"
  proof -
    have z: "\<lfloor>\<bar>r\<bar>\<rfloor> = 0" using that(2) by (simp add: floor_eq_iff)
    have "\<bar>r\<bar> < 10 ^ 21" using that(2) by simp
    with that(1) have "parseInt (Some (Num r)) = Some (if r < 0 then - \<lfloor>\<bar>r\<bar>\<rfloor> else \<lfloor>\<bar>r\<bar>\<rfloor>)"
      by (intro parseInt_decimal) simp_all
    then have "parseInt (Some (Num r)) = Some 0"
      unfolding z by simp
    then show ?thesis by (simp add: quantity_or_1_def)
  qed
  show "quantity_or_1 (Some (Num r)) = \<lfloor>r\<rfloor>" if "1 \<le> r" "r < 10 ^ 21"
  proof -
    have a: "\<bar>r\<bar> = r" using that(1) by simp
    have "\<lfloor>r\<rfloor> \<noteq> 0" using that(1) by (simp add: floor_eq_iff)
    moreover have "1 / 10 ^ 6 \<le> \<bar>r\<bar>" using that(1) by (simp add: a)
    moreover have "\<bar>r\<bar> < 10 ^ 21" using that(2) by (simp only: a)
    moreover have "\<not> r < 0" using that(1) by simp
    ultimately show ?thesis
      by (simp add: quantity_or_1_def parseInt_decimal a)
  qed
  show "quantity_or_1 (Some (Num r)) = \<lceil>r\<rceil>" if "r \<le> - 1" "- (10 ^ 21) < r"
  proof -
    have a: "\<bar>r\<bar> = - r" using that(1) by simp
    have c: "- \<lfloor>- r\<rfloor> = \<lceil>r\<rceil>" by (simp add: ceiling_def)
    have "\<lceil>r\<rceil> \<noteq> 0" using that(1) by (simp add: ceiling_eq_iff)
    moreover have "1 / 10 ^ 6 \<le> \<bar>r\<bar>" using that(1) by (simp add: a)
    moreover have "\<bar>r\<bar> < 10 ^ 21" using that(2) by (simp add: a)
    moreover have "r < 0" using that(1) by simp
    ultimately show ?thesis
      by (simp add: quantity_or_1_def parseInt_decimal a c)
  qed
qed

text \<open>With an exponent in the rendering, \<^verbatim>\<open>parseInt\<close> reads the leading digit.\<close>

lemma parseInt_exponent:
  "parseInt (Some (Num (5 / 10 ^ 7))) = Some 5"
  "parseInt (Some (Num (10 ^ 21))) = Some 1"
proof -
  have "lead_small (5 / 10 ^ 7) = 5"
    by (simp add: lead_small.simps)
  then show "parseInt (Some (Num (5 / 10 ^ 7))) = Some 5"
    by (simp add: parseInt_def Let_def)
  have "lead_big (10 ^ 21) = 1"
    by (simp add: lead_big.simps)
  then show "parseInt (Some (Num (10 ^ 21))) = Some 1"
    by (simp add: parseInt_def Let_def)
qed

text \<open>
  Claim C6: whenever the quantity given to \<^verbatim>\<open>addItem\<close> is not a positive integer
  (negative, zero or not a number) the stored quantity is 1. The code writes
  \<^verbatim>\<open>parseInt(item.quantity) || 1\<close>, which replaces \<^verbatim>\<open>NaN\<close> and 0 only: a negative
  integer is truthy and is stored as it is. On the empty default order,
  \<^verbatim>\<open>addItem({name: "Pizza", price: 250, quantity: -3})\<close> returns \<^verbatim>\<open>true\<close> and stores
  one row of quantity \<open>-3\<close>.
\<close>

theorem addItem_negative_quantity:
  "fst (addItem example_env (Some (pizza (- 3))) new_CartManager) = Return True \<and>
   map i_quantity (cart_items (snd (addItem example_env (Some (pizza (- 3))) new_CartManager)))
     = [- 3] \<and>
   getItemCount (snd (addItem example_env (Some (pizza (- 3))) new_CartManager)) = Return (- 3)"
  by (simp add: new_CartManager_eq addItem_def pizza_def example_env_def cart_def orders_get_def
      cart_push_def cart_items_def showNotification_def quantity_or_1_def parseInt_def Let_def
      getItemCount_def items_count_def)

section \<open>Deleting and renaming orders\<close>

text \<open>
  Claim C7: in every state \<^verbatim>\<open>deleteOrder("default")\<close> returns failure, emits an error
  notification and leaves the items of \<^verbatim>\<open>"default"\<close> and \<^verbatim>\<open>activeOrderId\<close> unchanged.
  The call changes nothing but the log of notifications.
\<close>

theorem deleteOrder_default_refused:
  "fst (deleteOrder ''default'' s) = Return False \<and>
   notifications (snd (deleteOrder ''default'' s)) =
     notifications s @ [(''Cannot delete default order'', ''error'')] \<and>
   orders (snd (deleteOrder ''default'' s)) = orders s \<and>
   heap (snd (deleteOrder ''default'' s)) = heap s \<and>
   activeOrderId (snd (deleteOrder ''default'' s)) = activeOrderId s \<and>
   orderTemplates (snd (deleteOrder ''default'' s)) = orderTemplates s"
  by (simp add: deleteOrder_def showNotification_def)

theorem deleteOrder_default_refused_witness:
  "fst (deleteOrder ''default'' (snd (addItem example_env (Some (pizza 2)) new_CartManager)))
     = Return False \<and>
   notifications
     (snd (deleteOrder ''default'' (snd (addItem example_env (Some (pizza 2)) new_CartManager))))
     = [(''Pizza added to cart!'', ''success''), (''Cannot delete default order'', ''error'')] \<and>
   orders
     (snd (deleteOrder ''default'' (snd (addItem example_env (Some (pizza 2)) new_CartManager))))
     = [(''default'', Rows [0])] \<and>
   activeOrderId
     (snd (deleteOrder ''default'' (snd (addItem example_env (Some (pizza 2)) new_CartManager))))
     = ''default''"
  using deleteOrder_default_refused
          [of "snd (addItem example_env (Some (pizza 2)) new_CartManager)"]
  by (simp add: pizza_state)

text \<open>
  Deleting the active order, when it is not \<^verbatim>\<open>"default"\<close>, removes it and makes
  \<^verbatim>\<open>"default"\<close> the active id, provided the order \<^verbatim>\<open>"default"\<close> exists: that is what the
  fallback \<^verbatim>\<open>switchToOrder('default')\<close> tests.
\<close>

lemma deleteOrder_active:
  assumes "k \<noteq> ''default''" and "has_order s k" and "activeOrderId s = k"
    and "has_order s ''default''"
  shows "activeOrderId (snd (deleteOrder k s)) = ''default'' \<and>
         k \<notin> set (map fst (orders (snd (deleteOrder k s))))"
proof -
  define s1 where "s1 = s\<lparr>orders := AList.delete k (orders s)\<rparr>"
  have get: "orders_get s k \<noteq> None"
    using assms(2) by (rule has_order_orders_get)
  have d: "orders_get s1 ''default'' \<noteq> None"
    using assms(1,4) by (intro has_order_orders_get) (simp add: s1_def)
  have sw: "activeOrderId (snd (switchToOrder ''default'' s1)) = ''default'' \<and>
      orders (snd (switchToOrder ''default'' s1)) = orders s1"
    using d by (auto simp: switchToOrder_def Let_def split: outcome.split)
  have "snd (deleteOrder k s) = snd (switchToOrder ''default'' s1) \<or>
      snd (deleteOrder k s) = showNotification (''Deleted order: '' @ k) ''info''
         (snd (switchToOrder ''default'' s1))"
    using assms(1,3) get
    by (auto simp: deleteOrder_def Let_def s1_def split: prod.split outcome.split)
  moreover have "k \<notin> set (map fst (orders s1))"
    by (simp add: s1_def AList.delete_keys)
  ultimately show ?thesis using sw by auto
qed

text \<open>
  Claim C8: when an existing order other than \<^verbatim>\<open>"default"\<close> is the active one,
  \<^verbatim>\<open>deleteOrder\<close> of it makes \<^verbatim>\<open>"default"\<close> the active order and the deleted id is no
  longer among \<^verbatim>\<open>getAllOrderIds()\<close>. The code does this only while the order
  \<^verbatim>\<open>"default"\<close> exists, and \<^verbatim>\<open>renameOrder\<close> can rename it away: after
  \<^verbatim>\<open>createOrder("lunch")\<close> and \<^verbatim>\<open>renameOrder("default", "main")\<close> the order \<^verbatim>\<open>"lunch"\<close>
  exists, is not \<^verbatim>\<open>"default"\<close> and is active; \<^verbatim>\<open>deleteOrder("lunch")\<close> returns \<^verbatim>\<open>true\<close>
  and removes it, the fallback \<^verbatim>\<open>switchToOrder('default')\<close> notifies that there is no
  such order, and \<^verbatim>\<open>activeOrderId\<close> is still \<^verbatim>\<open>"lunch"\<close>.
\<close>

theorem deleteOrder_active_without_default:
  "map_option (\<lambda>s. (''lunch'' \<noteq> ''default'', has_order s ''lunch'', activeOrderId s))
     (run [CreateOrder example_env (Some ''lunch''), RenameOrder ''default'' ''main'']
        new_CartManager) = Some (True, True, ''lunch'') \<and>
   map_option (\<lambda>s. fst (deleteOrder ''lunch'' s))
     (run [CreateOrder example_env (Some ''lunch''), RenameOrder ''default'' ''main'']
        new_CartManager) = Some (Return True) \<and>
   map_option (\<lambda>s. activeOrderId (snd (deleteOrder ''lunch'' s)))
     (run [CreateOrder example_env (Some ''lunch''), RenameOrder ''default'' ''main'']
        new_CartManager) = Some ''lunch'' \<and>
   map_option (\<lambda>s. getAllOrderIds (snd (deleteOrder ''lunch'' s)))
     (run [CreateOrder example_env (Some ''lunch''), RenameOrder ''default'' ''main'']
        new_CartManager) = Some [''main''] \<and>
   map_option (\<lambda>s. last (notifications (snd (deleteOrder ''lunch'' s))))
     (run [CreateOrder example_env (Some ''lunch''), RenameOrder ''default'' ''main'']
        new_CartManager) = Some (''Deleted order: lunch'', ''info'')"
proof -
  have k: "object_keys [(''main'', Rows [])] = [''main'']"
    by (simp add: object_keys_def is_index_def digit_value_def)
  show ?thesis
    by (simp only: renamed_state)
       (simp add: has_order_def deleteOrder_def switchToOrder_def showNotification_def
          orders_get_def object_prototype_def getAllOrderIds_def k Let_def)
qed

text \<open>
  Claim C9: when the order \<open>b\<close> already exists, \<^verbatim>\<open>renameOrder(a, b)\<close> returns failure
  and leaves the items under \<open>a\<close> and \<open>b\<close> and \<^verbatim>\<open>activeOrderId\<close> unchanged. The call
  changes nothing at all, and notifies nothing.
\<close>

theorem renameOrder_onto_existing:
  assumes "has_order s b"
  shows "renameOrder a b s = (False, s)"
  using has_order_orders_get [OF assms]
  by (auto simp: renameOrder_def split: option.split)

theorem renameOrder_onto_existing_witness:
  "has_order (snd (createOrder example_env (Some ''lunch'') new_CartManager)) ''default'' \<and>
   renameOrder ''lunch'' ''default'' (snd (createOrder example_env (Some ''lunch'') new_CartManager))
     = (False, snd (createOrder example_env (Some ''lunch'') new_CartManager))"
proof -
  have h: "has_order (snd (createOrder example_env (Some ''lunch'') new_CartManager)) ''default''"
    by (simp add: lunch_state has_order_def)
  show ?thesis using h renameOrder_onto_existing [OF h, of "''lunch''"] by simp
qed

section \<open>The presence check of addItem\<close>

text \<open>
  Claim C10: a descriptor whose price is the number 0 is refused by \<^verbatim>\<open>addItem\<close>,
  which returns \<^verbatim>\<open>false\<close> and leaves the active order unchanged, since \<^verbatim>\<open>!item.price\<close>
  holds of 0; a name that is the empty string is refused likewise. Nothing of the
  state changes.
\<close>

theorem addItem_falsy_price_or_name:
  "addItem e (Some (d\<lparr>d_price := Some (Num 0)\<rparr>)) s = (Return False, s) \<and>
   addItem e (Some (d\<lparr>d_name := Some []\<rparr>)) s = (Return False, s)"
  by (simp add: addItem_def split: option.split)

theorem addItem_falsy_price_or_name_witness:
  "addItem example_env (Some ((pizza 1)\<lparr>d_price := Some (Num 0)\<rparr>)) new_CartManager
     = (Return False, new_CartManager) \<and>
   addItem example_env (Some ((pizza 1)\<lparr>d_name := Some []\<rparr>)) new_CartManager
     = (Return False, new_CartManager)"
  using addItem_falsy_price_or_name [of example_env "pizza 1" new_CartManager]
  by simp

section \<open>Merging in addItem\<close>

text \<open>
  \<^verbatim>\<open>addItem\<close> returns \<^verbatim>\<open>false\<close> and does nothing unless the descriptor has a
  non-empty name and a price that is a number other than 0.
\<close>

lemma addItem_rejected:
  assumes "\<not> (\<exists>d nm p. item = Some d \<and> d_name d = Some nm \<and> nm \<noteq> [] \<and>
                d_price d = Some (Num p) \<and> p \<noteq> 0)"
  shows "addItem e item s = (Return False, s)"
proof (cases item)
  case None
  then show ?thesis by (simp add: addItem_def)
next
  case (Some d)
  show ?thesis
  proof (cases "d_name d")
    case None
    with Some show ?thesis by (simp add: addItem_def)
  next
    case nm: (Some nm)
    show ?thesis
    proof (cases "nm = []")
      case True
      with Some nm show ?thesis by (simp add: addItem_def)
    next
      case False
      with assms Some nm have "\<And>p. d_price d = Some (Num p) \<Longrightarrow> p = 0"
        by blast
      with Some nm False show ?thesis
        by (cases "d_price d") (auto simp: addItem_def split: jsnum.split)
    qed
  qed
qed

lemma addItem_accepted:
  assumes "d_name d = Some nm" and "nm \<noteq> []" and "d_price d = Some (Num p)" and "p \<noteq> 0"
    and "cart s = Rows rows"
  shows "addItem e (Some d) s =
    (Return True, showNotification (sanitizeInput nm @ '' added to cart!'') ''success''
       (case find (\<lambda>a. i_name (heap s ! a) = sanitizeInput nm \<and> i_price (heap s ! a) = p)
               rows of
          Some a \<Rightarrow>
            s\<lparr>heap := (heap s)[a := (heap s ! a)
                 \<lparr>i_quantity := i_quantity (heap s ! a) + quantity_or_1 (d_quantity d)\<rparr>]\<rparr>
        | None \<Rightarrow>
            cart_push \<lparr>i_id = (case d_id d of
                                None \<Rightarrow> generateItemId e nm
                              | Some i \<Rightarrow> if i = [] then generateItemId e nm else i),
                       i_name = sanitizeInput nm, i_price = p,
                       i_quantity = quantity_or_1 (d_quantity d)\<rparr> s))"
  using assms by (simp add: addItem_def Let_def cong: option.case_cong)

text \<open>On a member of the prototype an accepted descriptor makes \<^verbatim>\<open>addItem\<close> throw.\<close>

lemma addItem_throws:
  assumes "d_name d = Some nm" and "nm \<noteq> []" and "d_price d = Some (Num p)" and "p \<noteq> 0"
    and "cart s = Member m"
  shows "addItem e (Some d) s = (TypeError, s)"
  using assms by (simp add: addItem_def Let_def)

lemma find_snoc_new:
  assumes "\<forall>x\<in>set xs. \<not> P x" and "P y"
  shows "find P (xs @ [y]) = Some y"
  using assms by (induction xs) auto

text \<open>Adding to an order that has no row of this name and price appends one.\<close>

lemma addItem_appends:
  assumes d: "d_name d = Some nm" "nm \<noteq> []" "d_price d = Some (Num p)" "p \<noteq> 0"
    and active: "map_of (orders s) (activeOrderId s) = Some (Rows rows)"
    and new: "\<forall>a\<in>set rows. \<not> same_item (sanitizeInput nm) p (heap s ! a)"
  shows "\<exists>it. same_item (sanitizeInput nm) p it \<and> i_quantity it = quantity_or_1 (d_quantity d) \<and>
      fst (addItem e (Some d) s) = Return True \<and>
      heap (snd (addItem e (Some d) s)) = heap s @ [it] \<and>
      activeOrderId (snd (addItem e (Some d) s)) = activeOrderId s \<and>
      map_of (orders (snd (addItem e (Some d) s))) (activeOrderId s)
        = Some (Rows (rows @ [length (heap s)]))"
proof -
  have c: "cart s = Rows rows" using active by (rule cart_own)
  have "find (\<lambda>a. i_name (heap s ! a) = sanitizeInput nm \<and> i_price (heap s ! a) = p) rows
      = None"
    using new by (simp add: find_None_iff same_item_def)
  then show ?thesis using active
    by (simp add: addItem_accepted [OF d c] cart_push_def same_item_def AList.update_conv')
qed

text \<open>Adding to an order whose last row has this name and price, and no other row has.\<close>

lemma addItem_merges:
  assumes d: "d_name d = Some nm" "nm \<noteq> []" "d_price d = Some (Num p)" "p \<noteq> 0"
    and active: "map_of (orders s) (activeOrderId s) = Some (Rows (rows @ [r]))"
    and new: "\<forall>a\<in>set rows. \<not> same_item (sanitizeInput nm) p (heap s ! a)"
    and row: "same_item (sanitizeInput nm) p (heap s ! r)"
  shows "fst (addItem e (Some d) s) = Return True \<and>
      heap (snd (addItem e (Some d) s)) =
      (heap s)[r := (heap s ! r)\<lparr>i_quantity := i_quantity (heap s ! r)
                                                + quantity_or_1 (d_quantity d)\<rparr>] \<and>
      activeOrderId (snd (addItem e (Some d) s)) = activeOrderId s \<and>
      orders (snd (addItem e (Some d) s)) = orders s"
proof -
  have c: "cart s = Rows (rows @ [r])" using active by (rule cart_own)
  have "find (\<lambda>a. i_name (heap s ! a) = sanitizeInput nm \<and> i_price (heap s ! a) = p)
          (rows @ [r]) = Some r"
    using new row by (intro find_snoc_new) (simp_all add: same_item_def)
  then show ?thesis
    by (simp add: addItem_accepted [OF d c])
qed

lemma addItems_snd_Cons:
  "snd (addItems ((e, d) # cs) s) = snd (addItems cs (snd (addItem e (Some d) s)))"
  "fst (addItems ((e, d) # cs) s)
     = fst (addItem e (Some d) s) # fst (addItems cs (snd (addItem e (Some d) s)))"
  by (simp_all add: split_beta Let_def)

lemma addItems_merge:
  assumes "\<forall>c\<in>set cs. \<exists>nm. d_name (snd c) = Some nm \<and> nm \<noteq> [] \<and> sanitizeInput nm = n \<and>
             d_price (snd c) = Some (Num p)"
    and "p \<noteq> 0"
    and "map_of (orders s) (activeOrderId s) = Some (Rows (rows @ [r]))"
    and "r < length (heap s)"
    and "\<forall>a\<in>set rows. \<not> same_item n p (heap s ! a)"
    and "same_item n p (heap s ! r)"
  shows "fst (addItems cs s) = map (\<lambda>c. Return True) cs \<and>
     activeOrderId (snd (addItems cs s)) = activeOrderId s \<and>
     orders (snd (addItems cs s)) = orders s \<and>
     heap (snd (addItems cs s)) =
       (heap s)[r := (heap s ! r)\<lparr>i_quantity := i_quantity (heap s ! r)
            + (\<Sum>c\<leftarrow>cs. quantity_or_1 (d_quantity (snd c)))\<rparr>]"
  using assms
proof (induction cs arbitrary: s)
  case Nil
  then show ?case by simp
next
  case (Cons c cs)
  obtain e d where c: "c = (e, d)" by (cases c)
  from Cons.prems(1) c obtain nm where d: "d_name d = Some nm" "nm \<noteq> []"
      "d_price d = Some (Num p)" and nm: "sanitizeInput nm = n"
    by auto
  define s1 where "s1 = snd (addItem e (Some d) s)"
  define q where "q = quantity_or_1 (d_quantity d)"
  have new: "\<forall>a\<in>set rows. \<not> same_item (sanitizeInput nm) p (heap s ! a)"
    using Cons.prems(5) nm by simp
  have row: "same_item (sanitizeInput nm) p (heap s ! r)"
    using Cons.prems(6) nm by simp
  have s1: "heap s1 = (heap s)[r := (heap s ! r)\<lparr>i_quantity := i_quantity (heap s ! r) + q\<rparr>]"
    "activeOrderId s1 = activeOrderId s" "orders s1 = orders s"
    and ok: "fst (addItem e (Some d) s) = Return True"
    using addItem_merges [OF d Cons.prems(2) Cons.prems(3) new row, of e]
    by (simp_all add: s1_def q_def)
  have r1: "heap s1 ! r = (heap s ! r)\<lparr>i_quantity := i_quantity (heap s ! r) + q\<rparr>"
    using Cons.prems(4) by (simp add: s1)
  have "fst (addItems cs s1) = map (\<lambda>c. Return True) cs \<and>
     activeOrderId (snd (addItems cs s1)) = activeOrderId s1 \<and>
     orders (snd (addItems cs s1)) = orders s1 \<and>
     heap (snd (addItems cs s1)) =
       (heap s1)[r := (heap s1 ! r)\<lparr>i_quantity := i_quantity (heap s1 ! r)
            + (\<Sum>c\<leftarrow>cs. quantity_or_1 (d_quantity (snd c)))\<rparr>]"
  proof (rule Cons.IH)
    show "\<forall>c\<in>set cs. \<exists>nm. d_name (snd c) = Some nm \<and> nm \<noteq> [] \<and> sanitizeInput nm = n \<and>
             d_price (snd c) = Some (Num p)"
      using Cons.prems(1) by simp
    show "p \<noteq> 0" by fact
    show "map_of (orders s1) (activeOrderId s1) = Some (Rows (rows @ [r]))"
      using Cons.prems(3) by (simp add: s1)
    show "r < length (heap s1)" using Cons.prems(4) by (simp add: s1)
    show "\<forall>a\<in>set rows. \<not> same_item n p (heap s1 ! a)"
    proof
      fix a assume a: "a \<in> set rows"
      with Cons.prems(5,6) have "a \<noteq> r" by auto
      then have "heap s1 ! a = heap s ! a" by (simp add: s1)
      with a Cons.prems(5) show "\<not> same_item n p (heap s1 ! a)" by simp
    qed
    show "same_item n p (heap s1 ! r)"
      using Cons.prems(6) by (simp add: r1 same_item_def)
  qed
  then show ?case using Cons.prems(4) ok
    by (simp add: c addItems_snd_Cons s1_def [symmetric] s1 q_def add.assoc
        del: addItems.simps)
qed

lemma addItems_new_row:
  assumes ident: "\<forall>c\<in>set (c0 # cs). \<exists>nm. d_name (snd c) = Some nm \<and> nm \<noteq> [] \<and>
             sanitizeInput nm = n \<and> d_price (snd c) = Some (Num p)"
    and price: "p \<noteq> 0"
    and active: "map_of (orders s) (activeOrderId s) = Some (Rows rows)"
    and refs: "\<forall>a\<in>set rows. a < length (heap s)"
    and new: "\<forall>a\<in>set rows. \<not> same_item n p (heap s ! a)"
  shows "\<exists>it. same_item n p it \<and>
           i_quantity it = (\<Sum>c\<leftarrow>c0 # cs. quantity_or_1 (d_quantity (snd c))) \<and>
           fst (addItems (c0 # cs) s) = map (\<lambda>c. Return True) (c0 # cs) \<and>
           cart_items (snd (addItems (c0 # cs) s)) = cart_items s @ [it]"
proof -
  obtain e d where c0: "c0 = (e, d)" by (cases c0)
  from ident c0 obtain nm where d: "d_name d = Some nm" "nm \<noteq> []"
      "d_price d = Some (Num p)" and nm: "sanitizeInput nm = n"
    by auto
  have cart: "cart s = Rows rows" using active by (rule cart_own)
  define r where "r = length (heap s)"
  define s1 where "s1 = snd (addItem e (Some d) s)"
  define q where "q = (\<Sum>c\<leftarrow>cs. quantity_or_1 (d_quantity (snd c)))"
  from addItem_appends [OF d price active, of e] new nm
  obtain it where it: "same_item n p it" "i_quantity it = quantity_or_1 (d_quantity d)"
      "heap s1 = heap s @ [it]" "activeOrderId s1 = activeOrderId s"
      "map_of (orders s1) (activeOrderId s) = Some (Rows (rows @ [r]))"
      and ok: "fst (addItem e (Some d) s) = Return True"
    by (auto simp: s1_def r_def)
  have old: "\<And>a. a \<in> set rows \<Longrightarrow> heap s1 ! a = heap s ! a"
    using refs by (simp add: it(3) nth_append)
  have merged: "fst (addItems cs s1) = map (\<lambda>c. Return True) cs \<and>
     activeOrderId (snd (addItems cs s1)) = activeOrderId s1 \<and>
     orders (snd (addItems cs s1)) = orders s1 \<and>
     heap (snd (addItems cs s1)) =
       (heap s1)[r := (heap s1 ! r)\<lparr>i_quantity := i_quantity (heap s1 ! r) + q\<rparr>]"
    unfolding q_def
  proof (rule addItems_merge)
    show "\<forall>c\<in>set cs. \<exists>nm. d_name (snd c) = Some nm \<and> nm \<noteq> [] \<and> sanitizeInput nm = n \<and>
             d_price (snd c) = Some (Num p)"
      using ident by simp
    show "p \<noteq> 0" by fact
    show "map_of (orders s1) (activeOrderId s1) = Some (Rows (rows @ [r]))"
      by (simp add: it)
    show "r < length (heap s1)" by (simp add: it(3) r_def)
    show "\<forall>a\<in>set rows. \<not> same_item n p (heap s1 ! a)"
      using new old by simp
    show "same_item n p (heap s1 ! r)"
      using it(1) by (simp add: it(3) r_def)
  qed
  define s2 where "s2 = snd (addItems (c0 # cs) s)"
  have s2: "s2 = snd (addItems cs s1)"
    by (simp add: s2_def c0 s1_def addItems_snd_Cons del: addItems.simps)
  have res: "fst (addItems (c0 # cs) s) = map (\<lambda>c. Return True) (c0 # cs)"
    using merged ok
    by (simp add: c0 addItems_snd_Cons s1_def [symmetric] del: addItems.simps)
  have r1: "heap s1 ! r = it" by (simp add: it(3) r_def)
  have "heap s2 = (heap s1)[r := it\<lparr>i_quantity := i_quantity it + q\<rparr>]"
    using merged by (simp add: s2 r1)
  then have heap2: "heap s2 = (heap s @ [it])[r := it\<lparr>i_quantity := i_quantity it + q\<rparr>]"
    by (simp add: it(3))
  have "map_of (orders s2) (activeOrderId s2) = Some (Rows (rows @ [r]))"
    using merged it(4,5) by (simp add: s2)
  then have cart2: "cart s2 = Rows (rows @ [r])" by (rule cart_own)
  have "\<And>a. a \<in> set rows \<Longrightarrow> heap s2 ! a = heap s ! a"
  proof -
    fix a assume a: "a \<in> set rows"
    with refs have "a < length (heap s)" by simp
    then show "heap s2 ! a = heap s ! a"
      by (simp add: heap2 r_def nth_append)
  qed
  then have "map (\<lambda>a. heap s2 ! a) rows = map (\<lambda>a. heap s ! a) rows"
    by simp
  moreover have "heap s2 ! r = it\<lparr>i_quantity := i_quantity it + q\<rparr>"
    by (simp add: heap2 r_def)
  ultimately have "cart_items s2 = cart_items s @ [it\<lparr>i_quantity := i_quantity it + q\<rparr>]"
    by (simp add: cart_items_def cart2 cart)
  moreover have "same_item n p (it\<lparr>i_quantity := i_quantity it + q\<rparr>)"
    using it(1) by (simp add: same_item_def)
  moreover have "i_quantity (it\<lparr>i_quantity := i_quantity it + q\<rparr>)
      = (\<Sum>c\<leftarrow>c0 # cs. quantity_or_1 (d_quantity (snd c)))"
    by (simp add: it(2) q_def c0)
  ultimately show ?thesis using res unfolding s2_def by blast
qed

text \<open>
  On an existing active order that has no row of the name and price yet, a
  non-empty sequence of accepted calls with that name and price all return \<^verbatim>\<open>true\<close>
  and leave exactly one such row, whose quantity is the sum of the coerced
  quantities; the other rows are as they were.
\<close>

lemma addItem_merges_identical:
  assumes calls: "cs \<noteq> []"
    and ident: "\<forall>c\<in>set cs. \<exists>nm. d_name (snd c) = Some nm \<and> nm \<noteq> [] \<and>
                  sanitizeInput nm = n \<and> d_price (snd c) = Some (Num p)"
    and price: "p \<noteq> 0"
    and active: "map_of (orders s) (activeOrderId s) = Some (Rows rows)"
    and refs: "\<forall>a\<in>set rows. a < length (heap s)"
    and new: "\<forall>it\<in>set (cart_items s). \<not> same_item n p it"
  shows "fst (addItems cs s) = map (\<lambda>c. Return True) cs \<and>
    length (filter (same_item n p) (cart_items (snd (addItems cs s)))) = 1 \<and>
    map i_quantity (filter (same_item n p) (cart_items (snd (addItems cs s))))
      = [\<Sum>c\<leftarrow>cs. quantity_or_1 (d_quantity (snd c))] \<and>
    filter (\<lambda>it. \<not> same_item n p it) (cart_items (snd (addItems cs s))) = cart_items s"
proof -
  from calls obtain c0 cs' where cs: "cs = c0 # cs'" by (cases cs) auto
  have cart: "cart s = Rows rows" using active by (rule cart_own)
  have new': "\<forall>a\<in>set rows. \<not> same_item n p (heap s ! a)"
    using new by (simp add: cart_items_def cart)
  from addItems_new_row [OF ident [unfolded cs] price active refs new']
  obtain it where it: "same_item n p it"
      "i_quantity it = (\<Sum>c\<leftarrow>cs. quantity_or_1 (d_quantity (snd c)))"
      "fst (addItems cs s) = map (\<lambda>c. Return True) cs"
      "cart_items (snd (addItems cs s)) = cart_items s @ [it]"
    unfolding cs by blast
  have none: "filter (same_item n p) (cart_items s) = []"
    using new by (simp add: filter_empty_conv)
  have all: "filter (\<lambda>it. \<not> same_item n p it) (cart_items s) = cart_items s"
    using new by (simp add: filter_id_conv)
  show ?thesis
    by (simp add: it none all)
qed

text \<open>
  Claim C3: after a sequence of successful \<^verbatim>\<open>addItem\<close> calls with the same sanitized
  name and the same price the active order has exactly one row of that name and
  price, whose quantity is the sum of the coerced quantities of the calls. The code
  does so on an existing active order (lemma \<open>addItem_merges_identical\<close>), but it
  can lose the active order: after \<^verbatim>\<open>createOrder("lunch")\<close>,
  \<^verbatim>\<open>renameOrder("default", "main")\<close>, \<^verbatim>\<open>deleteOrder("lunch")\<close> the active id \<^verbatim>\<open>"lunch"\<close>
  names no order. There \<^verbatim>\<open>addItem\<close> of two pizzas and then of one returns \<^verbatim>\<open>true\<close>
  both times, each time pushing onto the temporary array that the getter \<^verbatim>\<open>cart\<close>
  makes, and the cart holds no row afterwards.
\<close>

theorem addItem_without_active_order:
  "map_option (\<lambda>s. fst (addItems [(example_env, pizza 2), (example_env, pizza 1)] s))
     (run [CreateOrder example_env (Some ''lunch''), RenameOrder ''default'' ''main'',
           DeleteOrder ''lunch''] new_CartManager) = Some [Return True, Return True] \<and>
   map_option (\<lambda>s. cart_items (snd (addItems [(example_env, pizza 2), (example_env, pizza 1)] s)))
     (run [CreateOrder example_env (Some ''lunch''), RenameOrder ''default'' ''main'',
           DeleteOrder ''lunch''] new_CartManager) = Some [] \<and>
   map_option (\<lambda>s. orders (snd (addItems [(example_env, pizza 2), (example_env, pizza 1)] s)))
     (run [CreateOrder example_env (Some ''lunch''), RenameOrder ''default'' ''main'',
           DeleteOrder ''lunch''] new_CartManager) = Some [(''main'', Rows [])] \<and>
   map_option (\<lambda>s. getItemCount (snd (addItems [(example_env, pizza 2), (example_env, pizza 1)] s)))
     (run [CreateOrder example_env (Some ''lunch''), RenameOrder ''default'' ''main'',
           DeleteOrder ''lunch''] new_CartManager) = Some (Return 0)"
  by (simp only: dangling_state)
     (simp add: addItem_def pizza_def cart_def orders_get_def object_prototype_def
        cart_push_def cart_items_def showNotification_def getItemCount_def items_count_def
        Let_def)

text \<open>The same sequence on the fresh manager, where the active order exists.\<close>

lemma addItem_merges_identical_example:
  "fst (addItems [(example_env, pizza 2), (example_env, pizza 1)] new_CartManager)
     = [Return True, Return True] \<and>
   length (filter (same_item ''Pizza'' 250)
     (cart_items (snd (addItems [(example_env, pizza 2), (example_env, pizza 1)]
        new_CartManager)))) = 1 \<and>
   map i_quantity (filter (same_item ''Pizza'' 250)
     (cart_items (snd (addItems [(example_env, pizza 2), (example_env, pizza 1)]
        new_CartManager)))) = [3]"
proof -
  have h1: "[(example_env, pizza 2), (example_env, pizza 1)] \<noteq> []"
    by simp
  have h2: "\<forall>c\<in>set [(example_env, pizza 2), (example_env, pizza 1)].
      \<exists>nm. d_name (snd c) = Some nm \<and> nm \<noteq> [] \<and> sanitizeInput nm = ''Pizza'' \<and>
        d_price (snd c) = Some (Num 250)"
    by (simp add: pizza_def)
  have h3: "(250::real) \<noteq> 0" by simp
  have h4: "map_of (orders new_CartManager) (activeOrderId new_CartManager) = Some (Rows [])"
    by (simp add: new_CartManager_eq)
  have h5: "\<forall>a\<in>set []. a < length (heap new_CartManager)"
    by simp
  have h6: "\<forall>it\<in>set (cart_items new_CartManager). \<not> same_item ''Pizza'' 250 it"
    by (simp add: new_CartManager_eq cart_def orders_get_def cart_items_def)
  have q: "(\<Sum>c\<leftarrow>[(example_env, pizza 2), (example_env, pizza 1)].
      quantity_or_1 (d_quantity (snd c))) = 3"
    by (simp add: pizza_def quantity_or_1_def parseInt_def)
  show ?thesis
    using addItem_merges_identical [OF h1 h2 h3 h4 h5 h6] unfolding q by simp
qed

section \<open>Templates\<close>

lemma trim_Nil [simp]: "trim [] = []"
  by (simp add: trim_def)









text \<open>The cart with two pizzas and the template \<^verbatim>\<open>"T"\<close> saved from it.\<close>

lemma saved_state:
  "saveAsTemplate example_env ''T'' (snd (addItem example_env (Some (pizza 2)) new_CartManager)) =
    (Return (Some ''template-1700000000000-abcde''),
     \<lparr>activeOrderId = ''default'', orders = [(''default'', Rows [0])],
      orderTemplates = [\<lparr>t_id = ''template-1700000000000-abcde'', t_name = ''T'',
         t_items = [0], t_createdAt = ''2024-01-01T00:00:00.000Z'', t_total = 500,
         t_itemCount = 2, t_updatedAt = None\<rparr>],
      heap = [\<lparr>i_id = ''item-pizza-1700000000000'', i_name = ''Pizza'', i_price = 250,
               i_quantity = 2\<rparr>],
      notifications = [(''Pizza added to cart!'', ''success''),
                       (''Saved template: T'', ''success'')],
      page = \<lparr>has_cart_count = True, has_cart_items = True, has_total_amount = True\<rparr>\<rparr>)"
  by (simp only: pizza_state snd_conv)
     (simp add: saveAsTemplate_def trim_def is_ws_def example_env_def generateOrderId_def
        showNotification_def cart_def orders_get_def items_total_def items_count_def Let_def)

text \<open>
  Claim C5: after \<^verbatim>\<open>saveAsTemplate\<close>, a change of the order the template was saved
  from (\<^verbatim>\<open>updateQuantity\<close> or \<^verbatim>\<open>addItem\<close> on the active order) leaves the items, total
  and item count of the template unchanged, and \<^verbatim>\<open>updateTemplate\<close> leaves the items
  of the order unchanged. The code copies the array only (\<^verbatim>\<open>items: [...this.cart]\<close>):
  the template and the order hold the same item objects, and \<^verbatim>\<open>updateQuantity\<close> and
  the merge of \<^verbatim>\<open>addItem\<close> write the quantity into the object. With one pizza of
  quantity 2 in the cart and the template \<^verbatim>\<open>"T"\<close> saved, \<^verbatim>\<open>updateQuantity(0, 5)\<close>
  turns the quantity in the template into 5 (and another \<^verbatim>\<open>addItem\<close> of one pizza
  into 3) while the stored total and item count stay 500 and 2.
\<close>

theorem template_shares_items:
  "map (template_items
          (snd (saveAsTemplate example_env ''T''
             (snd (addItem example_env (Some (pizza 2)) new_CartManager)))))
       (orderTemplates
          (snd (saveAsTemplate example_env ''T''
             (snd (addItem example_env (Some (pizza 2)) new_CartManager)))))
     = [[\<lparr>i_id = ''item-pizza-1700000000000'', i_name = ''Pizza'', i_price = 250,
          i_quantity = 2\<rparr>]] \<and>
   map (template_items
          (snd (updateQuantity 0 (Some (Num 5))
            (snd (saveAsTemplate example_env ''T''
               (snd (addItem example_env (Some (pizza 2)) new_CartManager)))))))
       (orderTemplates
          (snd (updateQuantity 0 (Some (Num 5))
            (snd (saveAsTemplate example_env ''T''
               (snd (addItem example_env (Some (pizza 2)) new_CartManager)))))))
     = [[\<lparr>i_id = ''item-pizza-1700000000000'', i_name = ''Pizza'', i_price = 250,
          i_quantity = 5\<rparr>]] \<and>
   map (\<lambda>t. (t_total t, t_itemCount t))
       (orderTemplates
          (snd (updateQuantity 0 (Some (Num 5))
            (snd (saveAsTemplate example_env ''T''
               (snd (addItem example_env (Some (pizza 2)) new_CartManager)))))))
     = [(500, 2)] \<and>
   map (template_items
          (snd (addItem example_env (Some (pizza 1))
            (snd (saveAsTemplate example_env ''T''
               (snd (addItem example_env (Some (pizza 2)) new_CartManager)))))))
       (orderTemplates
          (snd (addItem example_env (Some (pizza 1))
            (snd (saveAsTemplate example_env ''T''
               (snd (addItem example_env (Some (pizza 2)) new_CartManager)))))))
     = [[\<lparr>i_id = ''item-pizza-1700000000000'', i_name = ''Pizza'', i_price = 250,
          i_quantity = 3\<rparr>]]"
  by (simp only: saved_state snd_conv)
     (simp add: template_items_def updateQuantity_def parseInt_def cart_def orders_get_def
        addItem_def pizza_def quantity_or_1_def showNotification_def Let_def)

text \<open>
  What the code does keep: the cart operations leave the template records (the
  references, the stored total and item count) alone, and \<^verbatim>\<open>updateTemplate\<close> leaves
  the orders and the item objects alone.
\<close>

lemma cart_push_templates [simp]: "orderTemplates (cart_push x s) = orderTemplates s"
  by (simp add: cart_push_def split: option.split slot.split)

lemma cart_splice_templates [simp]: "orderTemplates (cart_splice i s) = orderTemplates s"
  by (simp add: cart_splice_def split: option.split slot.split)

lemma addItem_templates: "orderTemplates (snd (addItem e item s)) = orderTemplates s"
proof -
  consider (rej) "addItem e item s = (Return False, s)"
    | (thr) "addItem e item s = (TypeError, s)"
    | (acc) d nm p rows where "item = Some d" "d_name d = Some nm" "nm \<noteq> []"
        "d_price d = Some (Num p)" "p \<noteq> 0" "cart s = Rows rows"
  proof (cases "\<exists>d nm p. item = Some d \<and> d_name d = Some nm \<and> nm \<noteq> [] \<and>
                d_price d = Some (Num p) \<and> p \<noteq> 0")
    case False
    then show ?thesis using addItem_rejected that(1) by blast
  next
    case True
    then obtain d nm p where d: "item = Some d" "d_name d = Some nm" "nm \<noteq> []"
      "d_price d = Some (Num p)" "p \<noteq> 0" by blast
    show ?thesis
    proof (cases "cart s")
      case (Rows rows)
      with d that(3) show ?thesis by blast
    next
      case (Member m)
      with d that(2) addItem_throws show ?thesis by blast
    qed
  qed
  then show ?thesis
  proof cases
    case acc
    then show ?thesis by (simp add: addItem_accepted split: option.split)
  qed simp_all
qed

lemma cart_operations_keep_template_records:
  "orderTemplates (snd (addItem e item s)) = orderTemplates s"
  "orderTemplates (snd (removeItem i s)) = orderTemplates s"
  "orderTemplates (snd (updateQuantity i q s)) = orderTemplates s"
  by (simp_all add: addItem_templates removeItem_def updateQuantity_def Let_def
      split: option.split slot.split member.split)

lemma updateTemplate_keeps_orders:
  "orders (snd (updateTemplate e t n its s)) = orders s"
  "heap (snd (updateTemplate e t n its s)) = heap s"
  "activeOrderId (snd (updateTemplate e t n its s)) = activeOrderId s"
  by (simp_all add: updateTemplate_def Let_def split: option.split)

section \<open>What keeps the invariant of the order store\<close>

lemma addItem_cases:
  obtains (rejected) "addItem e item s = (Return False, s)"
  | (throws) "addItem e item s = (TypeError, s)"
  | (accepted) d nm p rows where "item = Some d" "d_name d = Some nm" "nm \<noteq> []"
      "d_price d = Some (Num p)" "p \<noteq> 0" "cart s = Rows rows"
proof (cases "\<exists>d nm p. item = Some d \<and> d_name d = Some nm \<and> nm \<noteq> [] \<and>
                d_price d = Some (Num p) \<and> p \<noteq> 0")
  case False
  then show ?thesis using addItem_rejected rejected by blast
next
  case True
  then obtain d nm p where d: "item = Some d" "d_name d = Some nm" "nm \<noteq> []"
    "d_price d = Some (Num p)" "p \<noteq> 0" by blast
  show ?thesis
  proof (cases "cart s")
    case (Rows rows)
    with d accepted show ?thesis by blast
  next
    case (Member m)
    with d throws addItem_throws show ?thesis by blast
  qed
qed

lemma snd_ended [simp]: "snd (ended r) = snd r"
  by (simp add: ended_def split: prod.split outcome.split)

lemma cart_push_keys [simp]:
  "activeOrderId (cart_push x s) = activeOrderId s"
  "has_order (cart_push x s) k = has_order s k"
  by (auto simp: cart_push_def has_order_def AList.update_conv' split: option.split slot.split)

lemma cart_splice_keys [simp]:
  "activeOrderId (cart_splice i s) = activeOrderId s"
  "has_order (cart_splice i s) k = has_order s k"
  by (auto simp: cart_splice_def has_order_def AList.update_conv' split: option.split slot.split)

lemma store_inv_frame [simp]:
  "store_inv (showNotification m t s) = store_inv s"
  "store_inv (cart_push x s) = store_inv s"
  "store_inv (cart_splice i s) = store_inv s"
  "store_inv (s\<lparr>heap := h\<rparr>) = store_inv s"
  "store_inv (s\<lparr>orderTemplates := ts\<rparr>) = store_inv s"
  by (simp_all add: store_inv_def)

lemma store_inv_set_order:
  "store_inv s \<Longrightarrow> store_inv (s\<lparr>orders := AList.update k v (orders s)\<rparr>)"
  by (simp add: store_inv_def)

lemma orders_set_SomeD:
  "orders_set k v s = Some s1 \<Longrightarrow> s1 = s\<lparr>orders := AList.update k v (orders s)\<rparr>"
  by (auto simp: orders_set_def split: if_splits)

lemma switchToOrder_fields [simp]:
  "orders (snd (switchToOrder k s)) = orders s"
  "heap (snd (switchToOrder k s)) = heap s"
  "orderTemplates (snd (switchToOrder k s)) = orderTemplates s"
  "activeOrderId (snd (switchToOrder k s))
     = (if orders_get s k = None then activeOrderId s else k)"
  by (simp_all add: switchToOrder_def Let_def split: option.split outcome.split)

lemma has_order_switchToOrder [simp]:
  "has_order (snd (switchToOrder k s)) k' = has_order s k'"
  by (simp add: has_order_def)

lemma store_inv_addItem:
  assumes "store_inv s"
  shows "store_inv (snd (addItem e item s))"
proof (cases rule: addItem_cases [of e item s])
  case accepted
  then show ?thesis using assms by (simp add: addItem_accepted split: option.split)
qed (simp_all add: assms)

lemma store_inv_clearCart:
  assumes "store_inv s"
  shows "store_inv (snd (clearCart s))"
  using store_inv_set_order [OF assms]
  by (auto simp: clearCart_def set_cart_def assms dest!: orders_set_SomeD
      split: outcome.split option.split)

lemma store_inv_switchToOrder:
  assumes "store_inv s" and "has_order s k \<or> map_of object_prototype k = None"
  shows "store_inv (snd (switchToOrder k s))"
  using assms by (auto simp: store_inv_def orders_get_None has_order_def)

lemma store_inv_switchToOrder_default:
  assumes "has_order s ''default''"
  shows "store_inv (snd (switchToOrder ''default'' s))"
  using assms by (auto simp: store_inv_def orders_get_None has_order_def)

lemma store_inv_createOrder:
  assumes "store_inv s"
  shows "store_inv (snd (createOrder e n s))"
proof -
  define k where "k = (case n of None \<Rightarrow> generateOrderId e ''order''
                     | Some n \<Rightarrow> if n = [] then generateOrderId e ''order'' else n)"
  show ?thesis
  proof (cases "orders_get s k")
    case (Some v)
    then show ?thesis using assms by (simp add: createOrder_def k_def [symmetric])
  next
    case None
    then have set: "orders_set k (Rows []) s
        = Some (s\<lparr>orders := AList.update k (Rows []) (orders s)\<rparr>)"
      by (simp add: orders_set_def orders_get_None)
    have "store_inv (snd (switchToOrder k (s\<lparr>orders := AList.update k (Rows []) (orders s)\<rparr>)))"
      by (intro store_inv_switchToOrder store_inv_set_order assms) simp
    then show ?thesis using None
      by (simp add: createOrder_def k_def [symmetric] set case_prod_beta split: outcome.split)
  qed
qed

lemma store_inv_duplicateCurrentOrder:
  assumes "store_inv s"
  shows "store_inv (snd (duplicateCurrentOrder e s))"
  using store_inv_set_order [OF assms]
  by (auto simp: duplicateCurrentOrder_def Let_def assms dest!: orders_set_SomeD
      split: slot.split option.split)

lemma store_inv_deleteOrder:
  assumes "store_inv s"
  shows "store_inv (snd (deleteOrder k s))"
proof (cases "k = ''default'' \<or> orders_get s k = None")
  case True
  then show ?thesis using assms by (auto simp: deleteOrder_def)
next
  case False
  define s1 where "s1 = s\<lparr>orders := AList.delete k (orders s)\<rparr>"
  from False have kd: "''default'' \<noteq> k" by auto
  have d: "has_order s1 ''default''"
    using kd assms by (simp add: s1_def store_inv_def)
  show ?thesis
  proof (cases "activeOrderId s = k")
    case True
    have sw: "store_inv (snd (switchToOrder ''default'' s1))"
      using d by (rule store_inv_switchToOrder_default)
    have "snd (deleteOrder k s) =
        snd (case switchToOrder ''default'' s1 of
               (Return u, s2) \<Rightarrow>
                 (Return True, showNotification (''Deleted order: '' @ k) ''info'' s2)
             | (TypeError, s2) \<Rightarrow> (TypeError, s2)
             | (PrototypeReplaced, s2) \<Rightarrow> (PrototypeReplaced, s2))"
      using False True by (auto simp: deleteOrder_def Let_def s1_def)
    then show ?thesis using sw
      by (simp add: case_prod_beta split: outcome.split)
  next
    case other: False
    with assms d have "store_inv s1"
      by (simp add: store_inv_def s1_def)
    moreover have "snd (deleteOrder k s) = showNotification (''Deleted order: '' @ k) ''info'' s1"
      using False other by (auto simp: deleteOrder_def Let_def s1_def)
    ultimately show ?thesis by simp
  qed
qed

lemma store_inv_renameOrder:
  assumes "store_inv s" and "k \<noteq> ''default''"
  shows "store_inv (snd (renameOrder k k' s))"
  using assms
  by (auto simp: store_inv_def renameOrder_def Let_def has_order_def orders_get_None
      AList.delete_conv' AList.update_conv' split: option.split)

lemma store_inv_loadTemplate:
  assumes "store_inv s"
  shows "store_inv (snd (loadTemplate t k s))"
proof (cases "find (\<lambda>x. t_id x = t) (orderTemplates s)")
  case None
  then show ?thesis using assms by (simp add: loadTemplate_def)
next
  case (Some tpl)
  define k' where "k' = (case k of None \<Rightarrow> activeOrderId s
                       | Some t \<Rightarrow> if t = [] then activeOrderId s else t)"
  from store_inv_set_order [OF assms]
  show ?thesis using assms
    by (auto simp: loadTemplate_def Some Let_def k'_def [symmetric] dest!: orders_set_SomeD
        split: outcome.split option.split)
qed

text \<open>
  Every call keeps the invariant, apart from a rename of \<^verbatim>\<open>"default"\<close> and a switch
  to a name that \<^verbatim>\<open>orders\<close> inherits from \<^verbatim>\<open>Object.prototype\<close> and does not have as an
  order: \<^verbatim>\<open>deleteOrder\<close> refuses \<^verbatim>\<open>"default"\<close> and falls back to it, and an assignment
  to \<^verbatim>\<open>this.orders[id]\<close> adds an order or replaces one.
\<close>

lemma store_inv_exec:
  assumes "store_inv s" and "\<forall>k. op \<noteq> RenameOrder ''default'' k"
    and "\<forall>k. op = SwitchToOrder k \<longrightarrow> has_order s k \<or> map_of object_prototype k = None"
  shows "store_inv (snd (exec op s))"
proof (cases op)
  case (AddItem e d)
  then show ?thesis using assms(1) by (simp add: store_inv_addItem)
next
  case (RemoveItem i)
  then show ?thesis using assms(1)
    by (simp add: removeItem_def Let_def split: slot.split member.split)
next
  case (UpdateQuantity i q)
  then show ?thesis using assms(1)
    by (simp add: updateQuantity_def split: slot.split member.split option.split)
next
  case ClearCart
  then show ?thesis using assms(1) by (simp add: store_inv_clearCart)
next
  case (CreateOrder e n)
  then show ?thesis using assms(1) by (simp add: store_inv_createOrder)
next
  case (SwitchToOrder k)
  then show ?thesis using assms(1,3) by (simp add: store_inv_switchToOrder)
next
  case (DuplicateCurrentOrder e)
  then show ?thesis using assms(1) by (simp add: store_inv_duplicateCurrentOrder)
next
  case (DeleteOrder k)
  then show ?thesis using assms(1) by (simp add: store_inv_deleteOrder)
next
  case (RenameOrder k k')
  with assms(2) have "k \<noteq> ''default''" by auto
  with RenameOrder show ?thesis using assms(1) by (simp add: store_inv_renameOrder)
next
  case (SaveAsTemplate e n)
  then show ?thesis using assms(1)
    by (simp add: saveAsTemplate_def Let_def split: option.split slot.split)
next
  case (LoadTemplate t k)
  then show ?thesis using assms(1) by (simp add: store_inv_loadTemplate)
next
  case (DeleteTemplate t)
  then show ?thesis using assms(1)
    by (simp add: deleteTemplate_def split: option.split)
next
  case (UpdateTemplate e t n its)
  then show ?thesis using assms(1)
    by (simp add: updateTemplate_def Let_def split: option.split)
next
  case (DuplicateTemplate e t n)
  then show ?thesis using assms(1)
    by (simp add: duplicateTemplate_def Let_def split: option.split)
qed

lemma store_inv_run:
  assumes "store_inv s" and "\<forall>k. RenameOrder ''default'' k \<notin> set ops"
    and "\<forall>k. SwitchToOrder k \<in> set ops \<longrightarrow> map_of object_prototype k = None"
    and "run ops s = Some s'"
  shows "store_inv s'"
  using assms
proof (induction ops arbitrary: s)
  case Nil
  then show ?case by simp
next
  case (Cons op ops)
  from Cons.prems have "store_inv (snd (exec op s))"
    by (intro store_inv_exec) auto
  moreover from Cons.prems(4) have "run ops (snd (exec op s)) = Some s'"
    by (cases "exec op s"; cases "fst (exec op s)") auto
  ultimately show ?case using Cons.IH Cons.prems(2,3) by auto
qed

section \<open>References stay valid\<close>

lemma refs_ok_showNotification [simp]:
  "refs_ok (showNotification m t s) = refs_ok s"
  by (simp add: refs_ok_def)

lemma refs_ok_cart:
  assumes "refs_ok s" and "cart s = Rows rows"
  shows "\<forall>a\<in>set rows. a < length (heap s)"
proof (cases "map_of (orders s) (activeOrderId s)")
  case None
  with assms(2) have "rows = []"
    by (auto simp: cart_def orders_get_def split: option.splits)
  then show ?thesis by simp
next
  case (Some v)
  with assms show ?thesis by (simp add: cart_def orders_get_def refs_ok_def)
qed

lemma refs_ok_set_order:
  assumes "refs_ok s" and "\<forall>a\<in>set rows. a < length (heap s)"
  shows "refs_ok (s\<lparr>orders := AList.update k (Rows rows) (orders s)\<rparr>)"
  using assms by (auto simp: refs_ok_def AList.update_conv')

lemma refs_ok_delete_order:
  assumes "refs_ok s"
  shows "refs_ok (s\<lparr>orders := AList.delete k (orders s)\<rparr>)"
  using assms by (auto simp: refs_ok_def AList.delete_conv')

lemma refs_ok_cart_splice:
  assumes "refs_ok s"
  shows "refs_ok (cart_splice i s)"
proof (cases "map_of (orders s) (activeOrderId s)")
  case None
  then show ?thesis using assms by (simp add: cart_splice_def)
next
  case (Some v)
  show ?thesis
  proof (cases v)
    case (Member m)
    with Some show ?thesis using assms by (simp add: cart_splice_def)
  next
    case (Rows rows)
    with Some assms have "\<forall>a\<in>set rows. a < length (heap s)"
      by (auto simp: refs_ok_def)
    then have "\<forall>a\<in>set (take i rows @ drop (Suc i) rows). a < length (heap s)"
      by (auto dest: in_set_takeD in_set_dropD)
    with Some Rows show ?thesis
      using refs_ok_set_order [OF assms] by (simp add: cart_splice_def)
  qed
qed

lemma refs_ok_cart_push:
  assumes "refs_ok s"
  shows "refs_ok (cart_push x s)"
proof (cases "map_of (orders s) (activeOrderId s)")
  case None
  then show ?thesis using assms by (simp add: cart_push_def)
next
  case (Some v)
  show ?thesis
  proof (cases v)
    case (Member m)
    with Some show ?thesis using assms by (simp add: cart_push_def)
  next
    case (Rows rows)
    have grow: "refs_ok (s\<lparr>heap := heap s @ [x]\<rparr>)"
      using assms by (fastforce simp: refs_ok_def)
    from Some Rows assms
    have "\<forall>a\<in>set (rows @ [length (heap s)]). a < length (heap (s\<lparr>heap := heap s @ [x]\<rparr>))"
      by (fastforce simp: refs_ok_def)
    then have "refs_ok (s\<lparr>heap := heap s @ [x]\<rparr>
        \<lparr>orders := AList.update (activeOrderId s) (Rows (rows @ [length (heap s)]))
                    (orders (s\<lparr>heap := heap s @ [x]\<rparr>))\<rparr>)"
      by (rule refs_ok_set_order [OF grow])
    with Some Rows show ?thesis by (simp add: cart_push_def)
  qed
qed

lemma refs_ok_heap_update:
  assumes "refs_ok s"
  shows "refs_ok (s\<lparr>heap := (heap s)[a := x]\<rparr>)"
  using assms by (simp add: refs_ok_def)

lemma refs_ok_switchToOrder [simp]:
  "refs_ok (snd (switchToOrder k s)) = refs_ok s"
  by (simp add: refs_ok_def)

lemma find_in_set: "find P xs = Some x \<Longrightarrow> x \<in> set xs"
  by (auto simp: find_Some_iff)

lemma set_remove_first: "set (remove_first P xs) \<subseteq> set xs"
  by (induction xs) auto

lemma set_update_first: "set (update_first P f xs) \<subseteq> set xs \<union> f ` {x \<in> set xs. P x}"
  by (induction xs) auto

lemma refs_ok_addItem:
  assumes "refs_ok s"
  shows "refs_ok (snd (addItem e item s))"
proof (cases rule: addItem_cases [of e item s])
  case accepted
  then show ?thesis using assms
    by (simp add: addItem_accepted refs_ok_cart_push refs_ok_heap_update split: option.split)
qed (simp_all add: assms)

lemma refs_ok_clearCart:
  assumes "refs_ok s"
  shows "refs_ok (snd (clearCart s))"
  using refs_ok_set_order [OF assms, of "[]"]
  by (auto simp: clearCart_def set_cart_def assms dest!: orders_set_SomeD
      split: outcome.split option.split)

lemma refs_ok_createOrder:
  assumes "refs_ok s"
  shows "refs_ok (snd (createOrder e n s))"
  using refs_ok_set_order [OF assms, of "[]"]
  by (auto simp: createOrder_def Let_def assms case_prod_beta dest!: orders_set_SomeD
      split: outcome.split option.split)

lemma refs_ok_duplicateCurrentOrder:
  assumes "refs_ok s"
  shows "refs_ok (snd (duplicateCurrentOrder e s))"
proof (cases "cart s")
  case (Member m)
  then show ?thesis using assms by (simp add: duplicateCurrentOrder_def)
next
  case (Rows rows)
  from refs_ok_set_order [OF assms refs_ok_cart [OF assms Rows]] Rows show ?thesis
    by (auto simp: duplicateCurrentOrder_def Let_def assms dest!: orders_set_SomeD
        split: option.split)
qed

lemma refs_ok_deleteOrder:
  assumes "refs_ok s"
  shows "refs_ok (snd (deleteOrder k s))"
  using refs_ok_delete_order [OF assms, of k]
  by (auto simp: deleteOrder_def Let_def assms case_prod_beta
      split: outcome.split option.split)

lemma refs_ok_renameOrder:
  assumes "refs_ok s"
  shows "refs_ok (snd (renameOrder k k' s))"
proof (cases "orders_get s k = None \<or> orders_get s k' \<noteq> None")
  case True
  with assms show ?thesis by (auto simp: renameOrder_def split: option.split)
next
  case False
  then obtain v where v: "orders_get s k = Some v" and k': "orders_get s k' = None"
    by auto
  have rows: "\<forall>a\<in>set rows. a < length (heap s)" if "v = Rows rows" for rows
  proof -
    from v that have "map_of (orders s) k = Some (Rows rows)"
      by (auto simp: orders_get_def split: option.splits)
    with assms show ?thesis by (simp add: refs_ok_def)
  qed
  have moved: "refs_ok (s\<lparr>orders := AList.delete k (AList.update k' v (orders s))\<rparr>)"
    using assms rows by (auto simp: refs_ok_def AList.delete_conv' AList.update_conv'
        split: if_splits)
  then have "refs_ok (s\<lparr>orders := AList.delete k (AList.update k' v (orders s)),
      activeOrderId := k'\<rparr>)"
    by (simp add: refs_ok_def)
  with moved v k' show ?thesis
    by (simp add: renameOrder_def Let_def)
qed

lemma refs_ok_saveAsTemplate:
  assumes "refs_ok s"
  shows "refs_ok (snd (saveAsTemplate e n s))"
proof -
  have "refs_ok (s\<lparr>orderTemplates := orderTemplates s @ [t]\<rparr>)"
    if "cart s = Rows (t_items t)" for t
    using assms refs_ok_cart [OF assms that] by (simp add: refs_ok_def)
  with assms show ?thesis
    by (simp add: saveAsTemplate_def Let_def split: option.split slot.split)
qed

lemma refs_ok_loadTemplate:
  assumes "refs_ok s"
  shows "refs_ok (snd (loadTemplate t k s))"
proof (cases "find (\<lambda>x. t_id x = t) (orderTemplates s)")
  case None
  with assms show ?thesis by (simp add: loadTemplate_def)
next
  case (Some tpl)
  then have "tpl \<in> set (orderTemplates s)" by (rule find_in_set)
  with assms have "\<forall>a\<in>set (t_items tpl). a < length (heap s)"
    by (simp add: refs_ok_def)
  from refs_ok_set_order [OF assms this] Some show ?thesis
    by (auto simp: loadTemplate_def Let_def assms dest!: orders_set_SomeD
        split: outcome.split option.split)
qed

lemma refs_ok_deleteTemplate:
  assumes "refs_ok s"
  shows "refs_ok (snd (deleteTemplate t s))"
proof -
  have "refs_ok (s\<lparr>orderTemplates := remove_first P (orderTemplates s)\<rparr>)" for P
    using assms set_remove_first [of P "orderTemplates s"] by (auto simp: refs_ok_def)
  with assms show ?thesis
    by (simp add: deleteTemplate_def split: option.split)
qed

lemma refs_ok_update_first:
  assumes "refs_ok s"
    and "\<And>x. x \<in> set (orderTemplates s) \<Longrightarrow> \<forall>a\<in>set (t_items (f x)). a < length (heap s)"
  shows "refs_ok (s\<lparr>orderTemplates := update_first P f (orderTemplates s)\<rparr>)"
proof -
  have "\<forall>a\<in>set (t_items x). a < length (heap s)"
    if "x \<in> set (update_first P f (orderTemplates s))" for x
  proof -
    from that set_update_first [of P f "orderTemplates s"]
    consider "x \<in> set (orderTemplates s)" | y where "y \<in> set (orderTemplates s)" "x = f y"
      by auto
    then show ?thesis
    proof cases
      case 1
      with assms(1) show ?thesis by (simp add: refs_ok_def)
    next
      case 2
      with assms(2) show ?thesis by simp
    qed
  qed
  with assms(1) show ?thesis by (simp add: refs_ok_def)
qed

lemma refs_ok_updateTemplate:
  assumes "refs_ok s" and "\<And>rows. its = Some rows \<Longrightarrow> \<forall>a\<in>set rows. a < length (heap s)"
  shows "refs_ok (snd (updateTemplate e t n its s))"
proof (cases "find (\<lambda>x. t_id x = t) (orderTemplates s)")
  case None
  with assms(1) show ?thesis by (simp add: updateTemplate_def)
next
  case (Some tpl)
  define f where "f = (\<lambda>x::template.
      (case its of None \<Rightarrow> (case n of None \<Rightarrow> x
                          | Some m \<Rightarrow> if m = [] then x
                                      else x\<lparr>t_name := sanitizeInput (trim m)\<rparr>)
       | Some rows \<Rightarrow>
           (case n of None \<Rightarrow> x
            | Some m \<Rightarrow> if m = [] then x else x\<lparr>t_name := sanitizeInput (trim m)\<rparr>)
           \<lparr>t_items := rows,
             t_total := items_total (map (\<lambda>a. heap s ! a) rows),
             t_itemCount := items_count (map (\<lambda>a. heap s ! a) rows)\<rparr>)
      \<lparr>t_updatedAt := Some (e_iso e)\<rparr>)"
  have items: "t_items (f x) = (case its of None \<Rightarrow> t_items x | Some rows \<Rightarrow> rows)" for x
    by (simp add: f_def split: option.split)
  have "\<forall>a\<in>set (t_items (f x)). a < length (heap s)" if "x \<in> set (orderTemplates s)" for x
  proof (cases its)
    case None
    with that assms(1) show ?thesis by (simp add: items refs_ok_def)
  next
    case (Some rows)
    with assms(2) show ?thesis by (simp add: items)
  qed
  then have "refs_ok (s\<lparr>orderTemplates :=
      update_first (\<lambda>x. t_id x = t) f (orderTemplates s)\<rparr>)"
    by (rule refs_ok_update_first [OF assms(1)])
  with Some show ?thesis
    by (simp add: updateTemplate_def Let_def f_def)
qed

lemma refs_ok_duplicateTemplate:
  assumes "refs_ok s"
  shows "refs_ok (snd (duplicateTemplate e t n s))"
proof (cases "find (\<lambda>x. t_id x = t) (orderTemplates s)")
  case None
  with assms show ?thesis
    by (simp add: duplicateTemplate_def getTemplate_def)
next
  case (Some tpl)
  then have "tpl \<in> set (orderTemplates s)" by (rule find_in_set)
  with assms have "\<forall>a\<in>set (t_items tpl). a < length (heap s)"
    by (simp add: refs_ok_def)
  with assms Some show ?thesis
    by (simp add: duplicateTemplate_def getTemplate_def Let_def refs_ok_def)
qed

text \<open>
  Every call keeps the references valid, provided the array handed to
  \<^verbatim>\<open>updateTemplate\<close> holds item objects.
\<close>

lemma refs_ok_exec:
  assumes "refs_ok s"
    and "\<And>e t n rows. op = UpdateTemplate e t n (Some rows) \<Longrightarrow> \<forall>a\<in>set rows. a < length (heap s)"
  shows "refs_ok (snd (exec op s))"
proof (cases op)
  case (AddItem e d)
  then show ?thesis using assms(1) by (simp add: refs_ok_addItem)
next
  case (RemoveItem i)
  then show ?thesis using assms(1)
    by (simp add: removeItem_def refs_ok_cart_splice Let_def split: slot.split member.split)
next
  case (UpdateQuantity i q)
  then show ?thesis using assms(1)
    by (simp add: updateQuantity_def refs_ok_cart_splice refs_ok_heap_update
        split: slot.split member.split option.split)
next
  case ClearCart
  then show ?thesis using assms(1) by (simp add: refs_ok_clearCart)
next
  case (CreateOrder e n)
  then show ?thesis using assms(1) by (simp add: refs_ok_createOrder)
next
  case (SwitchToOrder k)
  then show ?thesis using assms(1) by simp
next
  case (DuplicateCurrentOrder e)
  then show ?thesis using assms(1) by (simp add: refs_ok_duplicateCurrentOrder)
next
  case (DeleteOrder k)
  then show ?thesis using assms(1) by (simp add: refs_ok_deleteOrder)
next
  case (RenameOrder k k')
  then show ?thesis using assms(1) by (simp add: refs_ok_renameOrder)
next
  case (SaveAsTemplate e n)
  then show ?thesis using assms(1) by (simp add: refs_ok_saveAsTemplate)
next
  case (LoadTemplate t k)
  then show ?thesis using assms(1) by (simp add: refs_ok_loadTemplate)
next
  case (DeleteTemplate t)
  then show ?thesis using assms(1) by (simp add: refs_ok_deleteTemplate)
next
  case (UpdateTemplate e t n its)
  then show ?thesis using assms by (simp add: refs_ok_updateTemplate)
next
  case (DuplicateTemplate e t n)
  then show ?thesis using assms(1) by (simp add: refs_ok_duplicateTemplate)
qed

lemma refs_ok_new: "refs_ok (construct pg)"
  by (simp add: refs_ok_def construct_eq)

section \<open>The order of the ids\<close>

text \<open>
  \<^verbatim>\<open>getAllOrderIds()\<close> lists the ids that are array indices first, by their value, and
  then the others as they were created: after \<^verbatim>\<open>createOrder("10")\<close>,
  \<^verbatim>\<open>createOrder("2")\<close> and \<^verbatim>\<open>createOrder("007")\<close> it gives \<^verbatim>\<open>"2"\<close>, \<^verbatim>\<open>"10"\<close>,
  \<^verbatim>\<open>"default"\<close>, \<^verbatim>\<open>"007"\<close>.
\<close>

lemma getAllOrderIds_indices_first:
  "map_option getAllOrderIds
     (run [CreateOrder example_env (Some ''10''), CreateOrder example_env (Some ''2''),
           CreateOrder example_env (Some ''007'')] new_CartManager)
     = Some [''2'', ''10'', ''default'', ''007'']"
proof -
  have "map_option orders
     (run [CreateOrder example_env (Some ''10''), CreateOrder example_env (Some ''2''),
           CreateOrder example_env (Some ''007'')] new_CartManager)
     = Some [(''default'', Rows []), (''10'', Rows []), (''2'', Rows []), (''007'', Rows [])]"
    by (simp add: new_CartManager_eq ended_def createOrder_def switchToOrder_def
        showNotification_def orders_get_def orders_set_def object_prototype_def
        updateCartDisplay_def display_throws_def cart_def Let_def)
  moreover have "object_keys
      [(''default'', Rows []), (''10'', Rows []), (''2'', Rows []), (''007'', Rows [])]
      = [''2'', ''10'', ''default'', ''007'']"
    by (simp add: object_keys_def is_index_def digit_value_def decimal_value_def)
  ultimately show ?thesis
    by (auto simp: getAllOrderIds_def)
qed

end
